theory Spec2Isabelle
  imports Main "HOL-Library.Word" "HOL-Library.AList"
begin

section \<open>JavaScript values, bytes and encodings\<close>

text \<open>
  The bridge (\<^verbatim>\<open>pear_bridge/index.js\<close>) is a Node.js program. Values that arrive through
  \<^verbatim>\<open>JSON.parse\<close> are untyped; the fields the code tests before use are modelled by
  \<open>jsval\<close>. Strings are HOL strings (code points 0..255), numbers are integers
  (millisecond clock readings and counters), buffers are lists of bytes.
\<close>

type_synonym byte = "8 word"

datatype jsval =
    JUndefined
  | JNull
  | JBool bool
  | JNum int
  | JStr string
  | JArr "jsval list"
  | JObj "(string \<times> jsval) list"

text \<open>JavaScript truthiness, as used by \<^verbatim>\<open>if (x)\<close>, \<^verbatim>\<open>x && y\<close>, \<^verbatim>\<open>x || y\<close> and \<^verbatim>\<open>!x\<close>.\<close>

fun truthy :: "jsval \<Rightarrow> bool" where
  "truthy JUndefined = False"
| "truthy JNull = False"
| "truthy (JBool b) = b"
| "truthy (JNum n) = (n \<noteq> 0)"
| "truthy (JStr s) = (s \<noteq> [])"
| "truthy (JArr _) = True"
| "truthy (JObj _) = True"

datatype js_error = TypeError | CryptoError | SyntaxError

text \<open>
  Property access \<^verbatim>\<open>v.k\<close> on a parsed JSON value that is not null or undefined: the last of
  two equal keys wins in \<^verbatim>\<open>JSON.parse\<close>, and a value that is not an object has no such
  property.
\<close>

definition field :: "jsval \<Rightarrow> string \<Rightarrow> jsval" where
  "field v k =
     (case v of
        JObj kvs \<Rightarrow> (case map_of (rev kvs) k of None \<Rightarrow> JUndefined | Some x \<Rightarrow> x)
      | _ \<Rightarrow> JUndefined)"

subsection \<open>Hex strings: \<^verbatim>\<open>buf.toString('hex')\<close> and \<^verbatim>\<open>Buffer.from(s, 'hex')\<close>\<close>

definition hexdigit :: "nat \<Rightarrow> char" where
  "hexdigit n = char_of (if n < 10 then 48 + n else 87 + n)"

definition hexval :: "char \<Rightarrow> nat option" where
  "hexval c =
     (let n = (of_char c :: nat) in
      if 48 \<le> n \<and> n \<le> 57 then Some (n - 48)
      else if 97 \<le> n \<and> n \<le> 102 then Some (n - 87)
      else if 65 \<le> n \<and> n \<le> 70 then Some (n - 55)
      else None)"

fun to_hex :: "byte list \<Rightarrow> string" where
  "to_hex [] = []"
| "to_hex (b # bs) = hexdigit (unat b div 16) # hexdigit (unat b mod 16) # to_hex bs"

text \<open>
  Node decodes a hex string two characters at a time and stops at the first pair that
  is not two hex digits; a trailing single character is dropped. Nothing is thrown.
\<close>

fun hex_decode :: "string \<Rightarrow> byte list" where
  "hex_decode (a # b # rest) =
     (case hexval a of
        None \<Rightarrow> []
      | Some x \<Rightarrow> (case hexval b of
                     None \<Rightarrow> []
                   | Some y \<Rightarrow> of_nat (16 * x + y) # hex_decode rest))"
| "hex_decode _ = []"

subsection \<open>UTF-8: \<^verbatim>\<open>Buffer.from(s)\<close>\<close>

definition utf8_char :: "char \<Rightarrow> byte list" where
  "utf8_char c =
     (let n = (of_char c :: nat) in
      if n < 128 then [of_nat n] else [of_nat (192 + n div 64), of_nat (128 + n mod 64)])"

definition utf8 :: "string \<Rightarrow> byte list" where
  "utf8 s = concat (map utf8_char s)"

section \<open>Wire payloads\<close>

text \<open>
  The fields of payloads and table entries carry the types the wire format gives them:
  task ids, statuses, task types and peer keys are strings, a deadline is a number or
  null (\<open>None\<close>), manifests, results, errors and contexts are arbitrary JSON. An optional field of
  an object that is absent is \<open>None\<close> (or \<open>JUndefined\<close>, or \<open>False\<close> for a flag that is
  only ever set to true).
\<close>

text \<open>
  A peer's manifest is whatever JSON value its handshake carried: the receive loop
  stores it unchecked. It is \<open>JNull\<close> until the handshake arrives.
\<close>

record peer =
  lastSeen :: int
  peer_manifest :: jsval

record task_payload =
  description :: string
  payload_context :: jsval
  priority :: string

text \<open>The inner JSON of an envelope, by its \<^verbatim>\<open>type\<close> field (wire format of the protocol).\<close>

datatype inner_msg =
    Handshake jsval
  | TaskRequest string string task_payload "int option" string
      \<comment> \<open>\<open>task_id\<close>, \<open>task_type\<close>, \<open>payload\<close>, \<open>deadline\<close>, \<open>sender\<close>\<close>
  | TaskResponse string string jsval jsval string
      \<comment> \<open>\<open>task_id\<close>, \<open>status\<close>, \<open>result\<close>, \<open>error\<close>, \<open>responder\<close>\<close>
  | FreeForm jsval

section \<open>Identity and the signed envelope\<close>

text \<open>
  The Ed25519 primitives and the DER codec come from Node's \<^verbatim>\<open>crypto\<close> module, which is
  not part of the repository: they are parameters of the model. \<open>createPublicKey\<close> and
  \<open>ed_verify\<close> return \<open>None\<close> where Node throws. \<open>buffer_from_object\<close> is what
  \<^verbatim>\<open>Buffer.from\<close> makes of an array or object (\<open>None\<close> where it throws).
  \<open>json_parse\<close> is \<^verbatim>\<open>JSON.parse\<close> of an envelope's content followed by the reading of
  the payload's fields (\<open>None\<close> where either throws), \<open>stringify_length\<close> is
  \<^verbatim>\<open>JSON.stringify(v).length\<close>.
\<close>

record ('pk, 'sk) node_api =
  createPublicKey :: "byte list \<Rightarrow> 'pk option"
  export_spki :: "'pk \<Rightarrow> byte list"
  ed_sign :: "'sk \<Rightarrow> byte list \<Rightarrow> byte list"
  ed_verify :: "'pk \<Rightarrow> byte list \<Rightarrow> byte list \<Rightarrow> bool option"
  buffer_from_object :: "jsval \<Rightarrow> byte list option"
  sha256 :: "byte list \<Rightarrow> byte list"
  json_parse :: "jsval \<Rightarrow> inner_msg option"
  stringify_length :: "jsval \<Rightarrow> nat"

record ('pk, 'sk) identity =
  publicKey :: 'pk
  privateKey :: 'sk

definition myPeerId :: "('pk, 'sk) node_api \<Rightarrow> ('pk, 'sk) identity \<Rightarrow> string" where
  "myPeerId api ident = to_hex (export_spki api (publicKey ident))"

text \<open>\<^verbatim>\<open>getRawKeyHex\<close>: drop the first 44 characters when there are more than 44.\<close>

definition getRawKeyHex :: "string \<Rightarrow> string" where
  "getRawKeyHex derHex = (if length derHex > 44 then drop 44 derHex else derHex)"

definition myPeerIdRaw :: "('pk, 'sk) node_api \<Rightarrow> ('pk, 'sk) identity \<Rightarrow> string" where
  "myPeerIdRaw api ident = getRawKeyHex (myPeerId api ident)"

text \<open>
  A frame as the receive loop sees it after \<^verbatim>\<open>JSON.parse\<close>: the envelope fields and the
  \<^verbatim>\<open>type\<close> field of the bare ping. A field that is absent is \<open>JUndefined\<close>.
\<close>

record raw_frame =
  rtype :: jsval
  content :: jsval
  senderKey :: jsval
  signature :: jsval
  timestamp :: jsval

definition signMessage ::
  "('pk, 'sk) node_api \<Rightarrow> ('pk, 'sk) identity \<Rightarrow> int \<Rightarrow> string \<Rightarrow> raw_frame" where
  "signMessage api ident now contentString =
     (let sig_bytes = ed_sign api (privateKey ident) (utf8 contentString) in
      \<lparr> rtype = JUndefined,
        content = JStr contentString,
        senderKey = JStr (myPeerId api ident),
        signature = JStr (to_hex sig_bytes),
        timestamp = JNum now \<rparr>)"

text \<open>\<^verbatim>\<open>Buffer.from(v, enc)\<close>: a string is decoded, a number, boolean, null or undefined throws.\<close>

definition buffer_from ::
  "('pk, 'sk) node_api \<Rightarrow> (string \<Rightarrow> byte list) \<Rightarrow> jsval \<Rightarrow> js_error + byte list" where
  "buffer_from api dec v =
     (case v of
        JStr s \<Rightarrow> Inr (dec s)
      | JArr _ \<Rightarrow> (case buffer_from_object api v of None \<Rightarrow> Inl TypeError | Some bs \<Rightarrow> Inr bs)
      | JObj _ \<Rightarrow> (case buffer_from_object api v of None \<Rightarrow> Inl TypeError | Some bs \<Rightarrow> Inr bs)
      | _ \<Rightarrow> Inl TypeError)"

text \<open>The body of the \<^verbatim>\<open>try\<close> block of \<^verbatim>\<open>verifyMessage\<close>; \<open>Inl\<close> is a throw.\<close>

definition verifyMessage_try :: "('pk, 'sk) node_api \<Rightarrow> raw_frame \<Rightarrow> js_error + bool" where
  "verifyMessage_try api message =
     (case buffer_from api hex_decode (senderKey message) of
        Inl e \<Rightarrow> Inl e
      | Inr senderKeyBuffer \<Rightarrow>
          (case createPublicKey api senderKeyBuffer of
             None \<Rightarrow> Inl CryptoError
           | Some senderKeyObject \<Rightarrow>
               (case buffer_from api utf8 (content message) of
                  Inl e \<Rightarrow> Inl e
                | Inr data \<Rightarrow>
                    (case buffer_from api hex_decode (signature message) of
                       Inl e \<Rightarrow> Inl e
                     | Inr sig \<Rightarrow>
                         (case ed_verify api senderKeyObject data sig of
                            None \<Rightarrow> Inl CryptoError
                          | Some ok \<Rightarrow> Inr ok)))))"

text \<open>\<^verbatim>\<open>verifyMessage\<close>: the \<^verbatim>\<open>catch\<close> turns every throw into the value \<^verbatim>\<open>false\<close>.\<close>

definition verifyMessage :: "('pk, 'sk) node_api \<Rightarrow> raw_frame \<Rightarrow> js_error + bool" where
  "verifyMessage api message =
     (case verifyMessage_try api message of Inl e \<Rightarrow> Inr False | Inr ok \<Rightarrow> Inr ok)"

section \<open>Node state\<close>

text \<open>
  The process-wide tables of \<^verbatim>\<open>index.js\<close>. A JavaScript \<^verbatim>\<open>Map\<close> iterates in insertion
  order and holds each key once: it is an association list, \<^verbatim>\<open>set\<close> is
  \<open>AList.update\<close> (replace in place, or append), \<^verbatim>\<open>delete\<close> is \<open>AList.delete\<close>,
  \<^verbatim>\<open>get\<close> is \<open>map_of\<close>. Task objects live in one table at a time, so the tables hold
  values. A socket write is recorded in \<open>outbox\<close> as the peer key and the inner payload
  that was serialised, signed with \<open>signMessage\<close> and written. \<open>swarmTopics\<close> are the
  topic hashes announced to the overlay (\<^verbatim>\<open>swarm.join\<close>, \<^verbatim>\<open>swarm.leave\<close>).
\<close>

record sent_task =
  target :: string
  status :: string
  payload :: task_payload
  task_type :: string
  createdAt :: int
  deadline :: "int option"
  attemptCount :: "nat option"
  lastAttemptAt :: "int option"
  nextRetryTime :: "int option"
  peerWasOffline :: bool
  failureReason :: "string option"
  failedAt :: "int option"
  result :: jsval
  error :: jsval
  completedAt :: "int option"
  responder :: "string option"
  contextId :: jsval
  a2aSource :: bool

record received_task =
  from_key :: string
  fromShortId :: string
  r_status :: string
  r_payload :: task_payload
  r_task_type :: string
  r_createdAt :: int
  r_deadline :: "int option"
  r_result :: jsval
  r_error :: jsval

record inbox_msg =
  sender :: string
  senderShortId :: string
  msg_timestamp :: int
  msg_content :: inner_msg

record topic_info =
  topicBuffer :: "byte list"
  hasSecret :: bool
  joinedAt :: int

record node_state =
  selfPeerId :: string
  myManifest :: jsval
  peers :: "(string \<times> peer) list"
  inbox :: "inbox_msg list"
  activeTopics :: "(string \<times> topic_info) list"
  swarmTopics :: "byte list list"
  sentTasks :: "(string \<times> sent_task) list"
  receivedTasks :: "(string \<times> received_task) list"
  deadLetterTasks :: "(string \<times> sent_task) list"
  totalUniquePeers :: "string list"
  outbox :: "(string \<times> inner_msg) list"

subsection \<open>String helpers\<close>

text \<open>\<^verbatim>\<open>s.slice(-8)\<close>: the last eight characters, the whole string when it is shorter.\<close>

definition slice_last8 :: "string \<Rightarrow> string" where
  "slice_last8 s = drop (length s - 8) s"

text \<open>\<^verbatim>\<open>s.substring(0, 8)\<close>.\<close>

definition substring8 :: "string \<Rightarrow> string" where
  "substring8 s = take 8 s"

text \<open>\<^verbatim>\<open>toLowerCase\<close> on code points 0..255: A-Z and the Latin-1 capitals move up by 32.\<close>

definition lower_char :: "char \<Rightarrow> char" where
  "lower_char c =
     (let n = (of_char c :: nat) in
      if (65 \<le> n \<and> n \<le> 90) \<or> (192 \<le> n \<and> n \<le> 222 \<and> n \<noteq> 215) then char_of (n + 32) else c)"

definition toLowerCase :: "string \<Rightarrow> string" where
  "toLowerCase s = map lower_char s"

text \<open>Decimal rendering of a number inside a template string.\<close>

fun show_nat :: "nat \<Rightarrow> string" where
  "show_nat n = (if n < 10 then [char_of (48 + n)] else show_nat (n div 10) @ [char_of (48 + n mod 10)])"

fun join_with :: "string \<Rightarrow> string list \<Rightarrow> string" where
  "join_with sep [] = []"
| "join_with sep [x] = x"
| "join_with sep (x # y # ys) = x @ sep @ join_with sep (y # ys)"

subsection \<open>Retry queue\<close>

definition maxAttempts :: nat where "maxAttempts = 3"
definition baseDelayMs :: int where "baseDelayMs = 5000"
definition maxDelayMs :: int where "maxDelayMs = 60000"

definition exponentialBackoff :: "nat \<Rightarrow> int" where
  "exponentialBackoff n = min (baseDelayMs * 2 ^ n) maxDelayMs"

text \<open>\<^verbatim>\<open>task.attemptCount || 0\<close>.\<close>

definition attempts :: "sent_task \<Rightarrow> nat" where
  "attempts task = (case attemptCount task of None \<Rightarrow> 0 | Some n \<Rightarrow> n)"

definition queueTaskForRetry :: "int \<Rightarrow> sent_task \<Rightarrow> sent_task" where
  "queueTaskForRetry now task =
     task\<lparr> status := ''queued_for_retry'',
           attemptCount := Some (attempts task + 1),
           lastAttemptAt := Some now,
           nextRetryTime := Some (now + exponentialBackoff (attempts task + 1)) \<rparr>"

definition moveToDeadLetter :: "int \<Rightarrow> string \<Rightarrow> sent_task \<Rightarrow> string \<Rightarrow> node_state \<Rightarrow> node_state" where
  "moveToDeadLetter now taskId task reason st =
     st\<lparr> deadLetterTasks :=
           AList.update taskId
             (task\<lparr> status := ''failed'', failureReason := Some reason, failedAt := Some now \<rparr>)
             (deadLetterTasks st),
         sentTasks := AList.delete taskId (sentTasks st) \<rparr>"

subsection \<open>Topics\<close>

definition joinTopic ::
  "('pk, 'sk) node_api \<Rightarrow> int \<Rightarrow> string \<Rightarrow> string \<Rightarrow> node_state \<Rightarrow> string \<times> node_state" where
  "joinTopic api now topicName secret st =
     (let combined = (if secret \<noteq> [] then topicName @ '':'' @ secret else topicName);
          tb = sha256 api (utf8 combined)
      in case map_of (activeTopics st) topicName of
           Some info \<Rightarrow> (to_hex (topicBuffer info), st)
         | None \<Rightarrow>
             (to_hex tb,
              st\<lparr> swarmTopics := swarmTopics st @ [tb],
                  activeTopics :=
                    AList.update topicName
                      \<lparr> topicBuffer = tb, hasSecret = (secret \<noteq> []), joinedAt = now \<rparr>
                      (activeTopics st) \<rparr>))"

definition leaveTopic :: "string \<Rightarrow> node_state \<Rightarrow> bool \<times> node_state" where
  "leaveTopic topicName st =
     (case map_of (activeTopics st) topicName of
        None \<Rightarrow> (False, st)
      | Some info \<Rightarrow>
          (True,
           st\<lparr> swarmTopics := removeAll (topicBuffer info) (swarmTopics st),
               activeTopics := AList.delete topicName (activeTopics st) \<rparr>))"

definition defaultTopic :: string where
  "defaultTopic = ''agent-zero-swarm-poc''"

definition defaultManifest :: jsval where
  "defaultManifest =
     JObj [(''role'', JStr ''Generalist''), (''skills'', JArr [JStr ''chat'']),
           (''agent_id'', JStr ''Agent-Zero'')]"

text \<open>The state once the module has been loaded: empty tables, the default topic joined.\<close>

definition startup :: "('pk, 'sk) node_api \<Rightarrow> string \<Rightarrow> int \<Rightarrow> node_state" where
  "startup api selfId now =
     snd (joinTopic api now defaultTopic []
       \<lparr> selfPeerId = selfId, myManifest = defaultManifest, peers = [], inbox = [],
         activeTopics = [], swarmTopics = [], sentTasks = [], receivedTasks = [],
         deadLetterTasks = [], totalUniquePeers = [selfId], outbox = [] \<rparr>)"

text \<open>An HTTP response: the status code and the fields of the JSON body.\<close>

type_synonym response = "nat \<times> (string \<times> jsval) list"

text \<open>\<^verbatim>\<open>POST /leave\<close>, the handler behind \<^verbatim>\<open>requireAuth\<close>. A key that is not a string is in no table.\<close>

definition post_leave :: "jsval \<Rightarrow> node_state \<Rightarrow> response \<times> node_state" where
  "post_leave topic st =
     (if \<not> truthy topic then ((400, [(''error'', JStr ''Missing topic'')]), st)
      else case topic of
             JStr t \<Rightarrow>
               (case leaveTopic t st of
                  (False, st') \<Rightarrow> ((404, [(''error'', JStr ''Not in topic'')]), st')
                | (True, st') \<Rightarrow> ((200, [(''status'', JStr ''left''), (''topic'', topic)]), st'))
           | _ \<Rightarrow> ((404, [(''error'', JStr ''Not in topic'')]), st))"

subsection \<open>Peer sessions\<close>

definition mySenderId :: "node_state \<Rightarrow> string" where
  "mySenderId st = substring8 (getRawKeyHex (selfPeerId st))"

text \<open>\<^verbatim>\<open>swarm.on('connection')\<close>.\<close>

definition on_connection :: "string \<Rightarrow> int \<Rightarrow> node_state \<Rightarrow> node_state" where
  "on_connection remoteKey now st =
     st\<lparr> totalUniquePeers := List.insert remoteKey (totalUniquePeers st),
         outbox := outbox st @ [(remoteKey, Handshake (myManifest st))],
         peers := AList.update remoteKey \<lparr> lastSeen = now, peer_manifest = JNull \<rparr> (peers st) \<rparr>"

definition cleanupPeer :: "string \<Rightarrow> node_state \<Rightarrow> node_state" where
  "cleanupPeer key st = st\<lparr> peers := AList.delete key (peers st) \<rparr>"

definition inbox_push :: "string \<Rightarrow> int \<Rightarrow> inner_msg \<Rightarrow> node_state \<Rightarrow> node_state" where
  "inbox_push remoteKey now msg st =
     st\<lparr> inbox := inbox st @
           [\<lparr> sender = remoteKey, senderShortId = slice_last8 remoteKey,
              msg_timestamp = now, msg_content = msg \<rparr>] \<rparr>"

text \<open>The dispatch on the payload's \<^verbatim>\<open>type\<close>, after the signature check.\<close>

fun dispatch :: "string \<Rightarrow> int \<Rightarrow> inner_msg \<Rightarrow> node_state \<Rightarrow> node_state" where
  "dispatch remoteKey now (Handshake m) st =
     (case map_of (peers st) remoteKey of
        None \<Rightarrow> st
      | Some p \<Rightarrow> st\<lparr> peers := AList.update remoteKey (p\<lparr> peer_manifest := m \<rparr>) (peers st) \<rparr>)"
| "dispatch remoteKey now (TaskRequest tid ttype pl dl sndr) st =
     inbox_push remoteKey now (TaskRequest tid ttype pl dl sndr)
       (st\<lparr> receivedTasks :=
             AList.update tid
               \<lparr> from_key = remoteKey, fromShortId = slice_last8 remoteKey,
                 r_status = ''pending'', r_payload = pl, r_task_type = ttype,
                 r_createdAt = now, r_deadline = dl, r_result = JUndefined, r_error = JUndefined \<rparr>
               (receivedTasks st) \<rparr>)"
| "dispatch remoteKey now (TaskResponse tid stat res err rsp) st =
     inbox_push remoteKey now (TaskResponse tid stat res err rsp)
       (case map_of (sentTasks st) tid of
          None \<Rightarrow> st
        | Some task \<Rightarrow>
            st\<lparr> sentTasks :=
                  AList.update tid
                    (task\<lparr> status := stat, result := res, error := err,
                           completedAt := Some now, responder := Some (slice_last8 remoteKey) \<rparr>)
                    (sentTasks st) \<rparr>)"
| "dispatch remoteKey now (FreeForm v) st = inbox_push remoteKey now (FreeForm v) st"

text \<open>
  \<^verbatim>\<open>socket.on('data')\<close>. The argument is \<open>None\<close> when the buffer is not the JSON text of an
  object: \<^verbatim>\<open>JSON.parse\<close> or the first field access throws and the \<^verbatim>\<open>catch\<close> drops the frame.
\<close>

definition on_data ::
  "('pk, 'sk) node_api \<Rightarrow> string \<Rightarrow> int \<Rightarrow> raw_frame option \<Rightarrow> node_state \<Rightarrow> node_state" where
  "on_data api remoteKey now data st =
     (case data of
        None \<Rightarrow> st
      | Some raw \<Rightarrow>
          if rtype raw = JStr ''ping'' then
            (case map_of (peers st) remoteKey of
               None \<Rightarrow> st
             | Some p \<Rightarrow> st\<lparr> peers := AList.update remoteKey (p\<lparr> lastSeen := now \<rparr>) (peers st) \<rparr>)
          else if truthy (signature raw) \<and> truthy (senderKey raw) then
            (if verifyMessage api raw \<noteq> Inr True then st
             else case json_parse api (content raw) of
                    None \<Rightarrow> st
                  | Some inner \<Rightarrow> dispatch remoteKey now inner st)
          else st)"

text \<open>The timeout reaper: every peer silent for more than ten seconds is dropped.\<close>

definition timeout_reaper :: "int \<Rightarrow> node_state \<Rightarrow> node_state" where
  "timeout_reaper now st =
     st\<lparr> peers := filter (\<lambda>(key, p). \<not> (now - lastSeen p > 10000)) (peers st) \<rparr>"

subsection \<open>Finding the target peer\<close>

text \<open>
  \<^verbatim>\<open>manifest.agent_id?.toLowerCase()\<close>, for \<^verbatim>\<open>peer.manifest || {}\<close> as well as for
  \<^verbatim>\<open>peer.manifest?.agent_id\<close>: undefined when the manifest has no \<^verbatim>\<open>agent_id\<close> or a null one,
  the lowered string when it is a string. Any other value (a number, a boolean, an
  array, an object) has no \<^verbatim>\<open>toLowerCase\<close> method and the call throws a TypeError.
\<close>

definition agent_lower :: "peer \<Rightarrow> js_error + string option" where
  "agent_lower p =
     (case field (peer_manifest p) ''agent_id'' of
        JUndefined \<Rightarrow> Inr None
      | JNull \<Rightarrow> Inr None
      | JStr a \<Rightarrow> Inr (Some (toLowerCase a))
      | _ \<Rightarrow> Inl TypeError)"

text \<open>
  The test of \<^verbatim>\<open>/task/request\<close> and of the A2A gateway on one peer: short id, or else the
  agent name. \<open>||\<close> evaluates its right operand only when the left one is false.
\<close>

definition request_match :: "string \<Rightarrow> string \<times> peer \<Rightarrow> js_error + bool" where
  "request_match tgt kp =
     (if slice_last8 (fst kp) = tgt then Inr True
      else case agent_lower (snd kp) of
             Inl e \<Rightarrow> Inl e
           | Inr a \<Rightarrow> Inr (a = Some (toLowerCase tgt)))"

text \<open>The test of the retry reaper, which also lets a broadcast target match any peer.\<close>

definition reaper_match :: "string \<Rightarrow> string \<times> peer \<Rightarrow> js_error + bool" where
  "reaper_match tgt kp =
     (if tgt = ''*'' \<or> slice_last8 (fst kp) = tgt then Inr True
      else case agent_lower (snd kp) of
             Inl e \<Rightarrow> Inl e
           | Inr a \<Rightarrow> Inr (a = Some (toLowerCase tgt)))"

text \<open>
  The loop over the peer table that stops at the first match: the peers are tested in
  table order, and a test that throws ends the loop with the exception.
\<close>

fun find_match :: "('a \<Rightarrow> js_error + bool) \<Rightarrow> 'a list \<Rightarrow> js_error + 'a option" where
  "find_match test [] = Inr None"
| "find_match test (x # xs) =
     (case test x of
        Inl e \<Rightarrow> Inl e
      | Inr True \<Rightarrow> Inr (Some x)
      | Inr False \<Rightarrow> find_match test xs)"

subsection \<open>The retry reaper\<close>

text \<open>\<^verbatim>\<open>task.deadline && task.deadline < now\<close>.\<close>

definition deadline_passed :: "int \<Rightarrow> sent_task \<Rightarrow> bool" where
  "deadline_passed now task = (case deadline task of None \<Rightarrow> False | Some d \<Rightarrow> d \<noteq> 0 \<and> d < now)"

text \<open>\<^verbatim>\<open>task.nextRetryTime && task.nextRetryTime > now\<close>.\<close>

definition retry_not_due :: "int \<Rightarrow> sent_task \<Rightarrow> bool" where
  "retry_not_due now task = (case nextRetryTime task of None \<Rightarrow> False | Some n \<Rightarrow> n \<noteq> 0 \<and> n > now)"

text \<open>\<^verbatim>\<open>task.attemptCount >= RETRY_CONFIG.maxAttempts\<close>; an absent count compares false.\<close>

definition attempts_exhausted :: "sent_task \<Rightarrow> bool" where
  "attempts_exhausted task = (case attemptCount task of None \<Rightarrow> False | Some n \<Rightarrow> n \<ge> maxAttempts)"

text \<open>
  One iteration of the reaper's loop, for the entry \<open>taskId\<close>. An entry that is no longer
  in the table is not visited. The only statement of the body that can throw is the
  peer search, which comes before the body changes anything: \<open>Inl\<close> is that throw.
\<close>

definition reaper_visit :: "int \<Rightarrow> string \<Rightarrow> node_state \<Rightarrow> js_error + node_state" where
  "reaper_visit now taskId st =
     (case map_of (sentTasks st) taskId of
        None \<Rightarrow> Inr st
      | Some task \<Rightarrow>
          if status task \<noteq> ''queued_for_retry'' \<and> status task \<noteq> ''pending'' then Inr st
          else if deadline_passed now task then
            Inr (moveToDeadLetter now taskId task ''Deadline exceeded'' st)
          else if status task \<noteq> ''queued_for_retry'' then Inr st
          else if retry_not_due now task then Inr st
          else
            (case find_match (reaper_match (target task)) (peers st) of
               Inl e \<Rightarrow> Inl e
             | Inr (Some targetPeer) \<Rightarrow>
                 Inr (st\<lparr> outbox := outbox st @
                            [(fst targetPeer,
                              TaskRequest taskId (task_type task) (payload task) (deadline task)
                                (mySenderId st))],
                          sentTasks :=
                            AList.update taskId
                              (task\<lparr> status := ''pending'', lastAttemptAt := Some now \<rparr>)
                              (sentTasks st) \<rparr>)
             | Inr None \<Rightarrow>
                 if attempts_exhausted task then
                   Inr (moveToDeadLetter now taskId task
                          (''Peer offline after '' @ show_nat (attempts task) @ '' attempts'') st)
                 else
                   Inr (st\<lparr> sentTasks :=
                              AList.update taskId (queueTaskForRetry now task) (sentTasks st) \<rparr>)))"

text \<open>
  The loop over the entries, in table order. The callback has no \<^verbatim>\<open>try\<close>: a throw ends
  the loop, the entries after the one that threw are not visited and what the earlier
  visits did stays. The result is the state the loop leaves and the exception, if any.
\<close>

fun reaper_loop :: "int \<Rightarrow> string list \<Rightarrow> node_state \<Rightarrow> node_state \<times> js_error option" where
  "reaper_loop now [] st = (st, None)"
| "reaper_loop now (taskId # rest) st =
     (case reaper_visit now taskId st of
        Inl e \<Rightarrow> (st, Some e)
      | Inr st' \<Rightarrow> reaper_loop now rest st')"

text \<open>One tick of the retry reaper.\<close>

definition retry_reaper :: "int \<Rightarrow> node_state \<Rightarrow> node_state \<times> js_error option" where
  "retry_reaper now st = reaper_loop now (map fst (sentTasks st)) st"

subsection \<open>Inbox and broadcast\<close>

text \<open>\<^verbatim>\<open>GET /inbox\<close>: the response carries \<open>count\<close> and \<open>messages\<close>.\<close>

definition get_inbox :: "node_state \<Rightarrow> (nat \<times> inbox_msg list) \<times> node_state" where
  "get_inbox st = (let messages = inbox st in ((length messages, messages), st\<lparr> inbox := [] \<rparr>))"

text \<open>
  \<^verbatim>\<open>POST /broadcast\<close>: one write per peer and the loopback copy. With no \<^verbatim>\<open>content\<close> in the
  body, \<^verbatim>\<open>JSON.stringify\<close> yields \<^verbatim>\<open>undefined\<close> and \<open>signMessage\<close> throws before anything
  is written.
\<close>

definition post_broadcast :: "int \<Rightarrow> jsval \<Rightarrow> node_state \<Rightarrow> js_error + (response \<times> node_state)" where
  "post_broadcast now body_content st =
     (if body_content = JUndefined then Inl TypeError
      else
        Inr ((200, [(''status'', JStr ''ok''), (''sent_to'', JNum (int (length (peers st))))]),
             st\<lparr> outbox := outbox st @ map (\<lambda>kp. (fst kp, FreeForm body_content)) (peers st),
                 inbox := inbox st @
                   [\<lparr> sender = selfPeerId st, senderShortId = mySenderId st,
                      msg_timestamp = now, msg_content = FreeForm body_content \<rparr>] \<rparr>))"

subsection \<open>Task submission: \<^verbatim>\<open>POST /task/request\<close>\<close>

record task_request_body =
  b_task_type :: jsval
  b_description :: jsval
  b_context :: jsval
  b_target :: jsval
  b_priority :: jsval
  b_deadline :: "int option"

definition VALID_TASK_TYPES :: "string list" where
  "VALID_TASK_TYPES = [''general'', ''analysis'', ''code_review'', ''research'', ''test'', ''other'']"

definition VALID_PRIORITIES :: "string list" where
  "VALID_PRIORITIES = [''low'', ''medium'', ''high'', ''critical'']"

definition MAX_DESCRIPTION_LENGTH :: nat where "MAX_DESCRIPTION_LENGTH = 10000"
definition MAX_CONTEXT_SIZE :: nat where "MAX_CONTEXT_SIZE = 50000"

definition bad_request :: "string \<Rightarrow> response" where
  "bad_request msg = (400, [(''error'', JStr msg)])"

text \<open>\<^verbatim>\<open>xs.includes(v)\<close> on a list of strings: only an equal string is included.\<close>

definition array_includes :: "string list \<Rightarrow> jsval \<Rightarrow> bool" where
  "array_includes xs v = (case v of JStr s \<Rightarrow> s \<in> set xs | _ \<Rightarrow> False)"

text \<open>\<^verbatim>\<open>v || d\<close> for a field that validation has left a string or falsy.\<close>

definition str_or :: "jsval \<Rightarrow> string \<Rightarrow> string" where
  "str_or v d = (case v of JStr s \<Rightarrow> (if s = [] then d else s) | _ \<Rightarrow> d)"

text \<open>\<^verbatim>\<open>deadline || null\<close>.\<close>

definition or_null :: "int option \<Rightarrow> int option" where
  "or_null d = (case d of None \<Rightarrow> None | Some x \<Rightarrow> (if x = 0 then None else Some x))"

text \<open>A fresh sent-task object with the fields the literal sets; the others are absent.\<close>

definition new_sent_task ::
  "string \<Rightarrow> string \<Rightarrow> task_payload \<Rightarrow> string \<Rightarrow> int \<Rightarrow> int option \<Rightarrow> sent_task" where
  "new_sent_task tgt stat pl ttype now dl =
     \<lparr> target = tgt, status = stat, payload = pl, task_type = ttype, createdAt = now,
       deadline = dl, attemptCount = None, lastAttemptAt = None, nextRetryTime = None,
       peerWasOffline = False, failureReason = None, failedAt = None,
       result = JUndefined, error = JUndefined, completedAt = None, responder = None,
       contextId = JUndefined, a2aSource = False \<rparr>"

text \<open>The validation chain of the handler; \<open>None\<close> lets the request through.\<close>

definition validate_task_request ::
  "('pk, 'sk) node_api \<Rightarrow> task_request_body \<Rightarrow> response option" where
  "validate_task_request api body =
     (if \<not> truthy (b_description body) then Some (bad_request ''description is required'')
      else case b_description body of
             JStr desc \<Rightarrow>
               if length desc > MAX_DESCRIPTION_LENGTH then
                 Some (bad_request (''description exceeds max length of '' @ show_nat MAX_DESCRIPTION_LENGTH))
               else if b_target body \<noteq> JUndefined \<and> (case b_target body of JStr _ \<Rightarrow> False | _ \<Rightarrow> True) then
                 Some (bad_request ''target must be a string'')
               else if truthy (b_task_type body) \<and> \<not> array_includes VALID_TASK_TYPES (b_task_type body) then
                 Some (bad_request (''task_type must be one of: '' @ join_with '', '' VALID_TASK_TYPES))
               else if truthy (b_priority body) \<and> \<not> array_includes VALID_PRIORITIES (b_priority body) then
                 Some (bad_request (''priority must be one of: '' @ join_with '', '' VALID_PRIORITIES))
               else if truthy (b_context body) \<and> stringify_length api (b_context body) > MAX_CONTEXT_SIZE then
                 Some (bad_request (''context exceeds max size of '' @ show_nat MAX_CONTEXT_SIZE @ '' bytes''))
               else None
           | _ \<Rightarrow> Some (bad_request ''description must be a string''))"

text \<open>
  The handler behind \<^verbatim>\<open>requireAuth\<close>. \<open>task_id\<close> is the value \<^verbatim>\<open>generateTaskId()\<close> returned,
  \<open>now\<close> the clock reading of the request. The peer search can throw; it runs before
  the handler writes to a socket or a table, so the throw (\<open>Inl\<close>, which Express answers
  with HTTP 500) leaves the state as it was.
\<close>

definition post_task_request ::
  "('pk, 'sk) node_api \<Rightarrow> string \<Rightarrow> int \<Rightarrow> task_request_body \<Rightarrow> node_state \<Rightarrow>
     js_error + (response \<times> node_state)" where
  "post_task_request api task_id now body st =
     (case validate_task_request api body of
        Some r \<Rightarrow> Inr (r, st)
      | None \<Rightarrow>
          (let pl = \<lparr> description = (case b_description body of JStr d \<Rightarrow> d | _ \<Rightarrow> []),
                      payload_context = (if truthy (b_context body) then b_context body else JObj []),
                      priority = str_or (b_priority body) ''medium'' \<rparr>;
               ttype = str_or (b_task_type body) ''general'';
               dl = or_null (b_deadline body);
               msg = TaskRequest task_id ttype pl dl (mySenderId st)
           in if truthy (b_target body) \<and> b_target body \<noteq> JStr ''*'' then
                (let tgt = (case b_target body of JStr t \<Rightarrow> t | _ \<Rightarrow> [])
                 in case find_match (request_match tgt) (peers st) of
                      Inl e \<Rightarrow> Inl e
                    | Inr (Some kp) \<Rightarrow>
                        (let targetPeer = slice_last8 (fst kp);
                             shown = (if targetPeer = [] then ''*'' else targetPeer)
                         in Inr ((200, [(''task_id'', JStr task_id), (''status'', JStr ''sent''),
                                        (''target'', JStr shown), (''sent_to'', JNum 1)]),
                                 st\<lparr> outbox := outbox st @ [(fst kp, msg)],
                                     sentTasks :=
                                       AList.update task_id
                                         (new_sent_task shown ''pending'' pl ttype now dl)
                                         (sentTasks st) \<rparr>))
                    | Inr None \<Rightarrow>
                        Inr ((202, [(''task_id'', JStr task_id), (''status'', JStr ''queued_for_retry''),
                                    (''target'', JStr tgt), (''sent_to'', JNum 0),
                                    (''message'', JStr (''Peer '' @ [CHR 0x27] @ tgt @ [CHR 0x27] @ '' offline, queued for retry'')),
                                    (''next_retry_at'', JNum (now + exponentialBackoff 1))]),
                             st\<lparr> sentTasks :=
                                   AList.update task_id
                                     ((new_sent_task tgt ''queued_for_retry'' pl ttype now dl)
                                        \<lparr> attemptCount := Some 1, lastAttemptAt := Some now,
                                          nextRetryTime := Some (now + exponentialBackoff 1),
                                          peerWasOffline := True \<rparr>)
                                     (sentTasks st) \<rparr>))
              else
                Inr ((200, [(''task_id'', JStr task_id), (''status'', JStr ''sent''),
                            (''target'', JStr ''*''), (''sent_to'', JNum (int (length (peers st))))]),
                     st\<lparr> outbox := outbox st @ map (\<lambda>kp. (fst kp, msg)) (peers st),
                         sentTasks :=
                           AList.update task_id (new_sent_task ''*'' ''pending'' pl ttype now dl)
                             (sentTasks st) \<rparr>)))"

subsection \<open>Responding: \<^verbatim>\<open>POST /task/respond\<close>\<close>

record respond_body =
  rb_task_id :: jsval
  rb_status :: jsval
  rb_result :: jsval
  rb_error :: jsval

definition validStatuses :: "string list" where
  "validStatuses = [''accepted'', ''rejected'', ''in_progress'', ''completed'', ''failed'']"

text \<open>\<^verbatim>\<open>v !== undefined ? v : null\<close>.\<close>

definition or_json_null :: "jsval \<Rightarrow> jsval" where
  "or_json_null v = (if v \<noteq> JUndefined then v else JNull)"

definition post_task_respond :: "respond_body \<Rightarrow> node_state \<Rightarrow> response \<times> node_state" where
  "post_task_respond body st =
     (if \<not> truthy (rb_task_id body) then (bad_request ''task_id is required'', st)
      else if \<not> array_includes validStatuses (rb_status body) then
        (bad_request (''status must be one of: '' @ join_with '', '' validStatuses), st)
      else case (case rb_task_id body of JStr tid \<Rightarrow> map_of (receivedTasks st) tid | _ \<Rightarrow> None) of
             None \<Rightarrow> ((404, [(''error'', JStr ''Task not found in received tasks'')]), st)
           | Some task \<Rightarrow>
               (let tid = (case rb_task_id body of JStr t \<Rightarrow> t | _ \<Rightarrow> []);
                    stat = (case rb_status body of JStr x \<Rightarrow> x | _ \<Rightarrow> []);
                    task' = task\<lparr> r_status := stat,
                                   r_result := (if rb_result body \<noteq> JUndefined then rb_result body else r_result task),
                                   r_error := (if rb_error body \<noteq> JUndefined then rb_error body else r_error task) \<rparr>;
                    msg = TaskResponse tid stat (or_json_null (rb_result body))
                            (or_json_null (rb_error body)) (mySenderId st);
                    sent = (map_of (peers st) (from_key task) \<noteq> None)
                in ((200, [(''task_id'', rb_task_id body), (''status'', rb_status body),
                           (''sent_to_requester'', JBool sent)]),
                    st\<lparr> receivedTasks := AList.update tid task' (receivedTasks st),
                        outbox := outbox st @ (if sent then [(from_key task, msg)] else []) \<rparr>)))"

subsection \<open>Manual requeue: \<^verbatim>\<open>POST /tasks/retry/:task_id\<close>\<close>

definition post_tasks_retry :: "string \<Rightarrow> int \<Rightarrow> node_state \<Rightarrow> response \<times> node_state" where
  "post_tasks_retry task_id now st =
     (case map_of (deadLetterTasks st) task_id of
        None \<Rightarrow> ((404, [(''error'', JStr ''Task not found in dead letter queue'')]), st)
      | Some task \<Rightarrow>
          ((200, [(''task_id'', JStr task_id), (''status'', JStr ''queued_for_retry''),
                  (''message'', JStr ''Task requeued'')]),
           st\<lparr> sentTasks :=
                 AList.update task_id
                   (task\<lparr> status := ''queued_for_retry'', attemptCount := Some 0,
                          nextRetryTime := Some now, failureReason := None, failedAt := None \<rparr>)
                   (sentTasks st),
               deadLetterTasks := AList.delete task_id (deadLetterTasks st) \<rparr>))"

section \<open>The A2A gateway: \<^verbatim>\<open>message/send\<close>\<close>

text \<open>\<^verbatim>\<open>typeof v === 'object'\<close> with \<open>v\<close> truthy.\<close>

definition is_object :: "jsval \<Rightarrow> bool" where
  "is_object v = (case v of JArr _ \<Rightarrow> True | JObj _ \<Rightarrow> True | _ \<Rightarrow> False)"

definition nonempty_string :: "jsval \<Rightarrow> bool" where
  "nonempty_string v = (case v of JStr s \<Rightarrow> s \<noteq> [] | _ \<Rightarrow> False)"

text \<open>The loop of \<^verbatim>\<open>validateMessageSendParams\<close> over the parts, from index \<open>i\<close>.\<close>

fun validate_parts :: "nat \<Rightarrow> jsval list \<Rightarrow> string option" where
  "validate_parts i [] = None"
| "validate_parts i (part # rest) =
     (if \<not> is_object part then
        Some (''message.parts['' @ show_nat i @ ''] must be an object'')
      else if \<not> nonempty_string (field part ''kind'') then
        Some (''message.parts['' @ show_nat i @ ''].kind is required'')
      else if field part ''kind'' = JStr ''text'' \<and> (case field part ''text'' of JStr _ \<Rightarrow> False | _ \<Rightarrow> True) then
        Some (''message.parts['' @ show_nat i @ ''].text is required for text parts'')
      else validate_parts (Suc i) rest)"

definition validateMessageSendParams :: "jsval \<Rightarrow> string option" where
  "validateMessageSendParams params =
     (if \<not> is_object params then Some ''params is required and must be an object''
      else let message = field params ''message'' in
        if \<not> is_object message then Some ''message is required and must be an object''
        else if \<not> nonempty_string (field message ''role'') then
          Some ''message.role is required and must be a string''
        else case field message ''parts'' of
               JArr parts \<Rightarrow> validate_parts 0 parts
             | _ \<Rightarrow> Some ''message.parts is required and must be an array'')"

text \<open>The two lists \<^verbatim>\<open>a2aMessageToKtpPayload\<close> collects from the parts.\<close>

fun textParts :: "jsval list \<Rightarrow> string list" where
  "textParts [] = []"
| "textParts (part # rest) =
     (case field part ''text'' of
        JStr t \<Rightarrow> (if field part ''kind'' = JStr ''text'' \<and> t \<noteq> [] then t # textParts rest else textParts rest)
      | _ \<Rightarrow> textParts rest)"

fun dataParts :: "jsval list \<Rightarrow> jsval list" where
  "dataParts [] = []"
| "dataParts (part # rest) =
     (if field part ''kind'' = JStr ''text'' \<and> truthy (field part ''text'') then dataParts rest
      else if field part ''kind'' = JStr ''data'' \<and> truthy (field part ''data'') then
        field part ''data'' # dataParts rest
      else if field part ''kind'' = JStr ''file'' then
        JObj [(''file'', (if truthy (field part ''uri'') then field part ''uri'' else field part ''name''))]
          # dataParts rest
      else dataParts rest)"

definition a2aMessageToKtpPayload :: "jsval \<Rightarrow> jsval \<Rightarrow> task_payload" where
  "a2aMessageToKtpPayload message ctxId =
     (let parts = (case field message ''parts'' of JArr ps \<Rightarrow> ps | _ \<Rightarrow> []);
          joined = join_with [CHR 0x0A] (textParts parts)
      in \<lparr> description = (if joined = [] then ''A2A task'' else joined),
           payload_context =
             JObj [(''a2a_message'', message),
                   (''data_parts'', (if dataParts parts \<noteq> [] then JArr (dataParts parts) else JUndefined)),
                   (''contextId'', ctxId)],
           priority = ''medium'' \<rparr>)"

text \<open>
  The JSON-RPC answer: an error object, or the task projected from a table entry
  (\<^verbatim>\<open>ktpTaskToA2ATask\<close> of the entry under the task id).
\<close>

datatype rpc_response =
    RpcError jsval int string jsval
  | RpcTask jsval string sent_task

text \<open>The entry \<^verbatim>\<open>handleMessageSend\<close> stores, from the target it reached and the number of writes.\<close>

definition a2a_entry :: "string \<Rightarrow> nat \<Rightarrow> task_payload \<Rightarrow> int \<Rightarrow> jsval \<Rightarrow> string \<Rightarrow> sent_task" where
  "a2a_entry targetPeer sentCount pl now ctxId taskId =
     (new_sent_task (if targetPeer = [] then ''*'' else targetPeer)
        (if sentCount > 0 then ''pending'' else ''queued_for_retry'') pl ''general'' now None)
       \<lparr> contextId := (if truthy ctxId then ctxId else JStr taskId), a2aSource := True \<rparr>"

text \<open>
  \<^verbatim>\<open>handleMessageSend\<close>. A truthy target that is not a string makes
  \<^verbatim>\<open>target.toLowerCase()\<close> throw at the first peer, and the search for a string target
  throws as in \<^verbatim>\<open>/task/request\<close>; both before any table is touched.
\<close>

definition handleMessageSend ::
  "string \<Rightarrow> int \<Rightarrow> jsval \<Rightarrow> jsval \<Rightarrow> node_state \<Rightarrow> js_error + (rpc_response \<times> node_state)" where
  "handleMessageSend taskId now rpc_id params st =
     (case validateMessageSendParams params of
        Some err \<Rightarrow>
          Inr (RpcError (if truthy rpc_id then rpc_id else JNull) (- 32602) ''Invalid params'' (JStr err), st)
      | None \<Rightarrow>
          (let message = field params ''message'';
               ctxId = field params ''contextId'';
               tgt = field params ''target'';
               pl = a2aMessageToKtpPayload message ctxId;
               msg = TaskRequest taskId ''general'' pl None (mySenderId st);
               store = (\<lambda>targetPeer sentCount writes.
                          let entry = a2a_entry targetPeer sentCount pl now ctxId taskId
                          in Inr (RpcTask rpc_id taskId entry,
                                  st\<lparr> outbox := outbox st @ writes,
                                      sentTasks := AList.update taskId entry (sentTasks st) \<rparr>))
           in if truthy tgt \<and> tgt \<noteq> JStr ''*'' then
                (case tgt of
                   JStr t \<Rightarrow>
                     (case find_match (request_match t) (peers st) of
                        Inl e \<Rightarrow> Inl e
                      | Inr (Some kp) \<Rightarrow> store (slice_last8 (fst kp)) 1 [(fst kp, msg)]
                      | Inr None \<Rightarrow> store [] 0 [])
                 | _ \<Rightarrow> (if peers st = [] then store [] 0 [] else Inl TypeError))
              else store [] (length (peers st)) (map (\<lambda>kp. (fst kp, msg)) (peers st))))"

section \<open>Runs of the node\<close>

text \<open>
  Every handler runs to completion on the single event loop, so a run of the node is a
  sequence of events, each with the inputs that come from outside: the clock reading,
  the generated task id, the request body or the received frame. The clock is read once
  per event: the \<^verbatim>\<open>Date.now()\<close> calls of one handler run return the same \<open>now\<close>.
  A peer dropped by the entropy reaper is an \<open>EvClose\<close>. The handlers that are not
  listed (join, manifest, memory, storage and the read-only endpoints) do not touch the
  task tables, the inbox or the peer table.
\<close>

datatype event =
    EvConnection string int
  | EvData string int "raw_frame option"
  | EvClose string
  | EvTimeoutReaper int
  | EvRetryReaper int
  | EvGetInbox
  | EvBroadcast int jsval
  | EvLeave jsval
  | EvTaskRequest string int task_request_body
  | EvTaskRespond respond_body
  | EvTasksRetry string int
  | EvMessageSend string int jsval jsval

text \<open>
  The state after a request handler: Express catches what a handler throws and answers
  500, and the handlers modelled here throw before they change anything.
\<close>

definition after_request :: "node_state \<Rightarrow> js_error + ('r \<times> node_state) \<Rightarrow> node_state" where
  "after_request st r = (case r of Inl e \<Rightarrow> st | Inr x \<Rightarrow> snd x)"

text \<open>
  One event: the state it leaves and, for a timer callback, the exception that escaped
  it. The receive loop catches its own exceptions.
\<close>

fun step :: "('pk, 'sk) node_api \<Rightarrow> event \<Rightarrow> node_state \<Rightarrow> node_state \<times> js_error option" where
  "step api (EvConnection key now) st = (on_connection key now st, None)"
| "step api (EvData key now d) st = (on_data api key now d st, None)"
| "step api (EvClose key) st = (cleanupPeer key st, None)"
| "step api (EvTimeoutReaper now) st = (timeout_reaper now st, None)"
| "step api (EvRetryReaper now) st = retry_reaper now st"
| "step api EvGetInbox st = (snd (get_inbox st), None)"
| "step api (EvBroadcast now c) st = (after_request st (post_broadcast now c st), None)"
| "step api (EvLeave topic) st = (snd (post_leave topic st), None)"
| "step api (EvTaskRequest task_id now body) st =
     (after_request st (post_task_request api task_id now body st), None)"
| "step api (EvTaskRespond body) st = (snd (post_task_respond body st), None)"
| "step api (EvTasksRetry task_id now) st = (snd (post_tasks_retry task_id now st), None)"
| "step api (EvMessageSend task_id now rpc_id params) st =
     (after_request st (handleMessageSend task_id now rpc_id params st), None)"

text \<open>
  A run of events. Nothing in the program handles an exception that escapes a timer
  callback, so Node ends the process there: the run stops with the tables as the
  callback left them and the remaining events never happen.
\<close>

fun run :: "('pk, 'sk) node_api \<Rightarrow> event list \<Rightarrow> node_state \<Rightarrow> node_state" where
  "run api [] st = st"
| "run api (ev # evs) st =
     (case step api ev st of
        (st', None) \<Rightarrow> run api evs st'
      | (st', Some e) \<Rightarrow> st')"

section \<open>A small instance of the library parameters\<close>

text \<open>
  To run the definitions on concrete inputs the parameters need values. \<open>demo_api\<close> is a
  deliberately small stand-in: a key is its raw bytes behind the fixed twelve-byte SPKI
  header of an Ed25519 key, a signature is the key followed by the message, the hash is
  the identity, and the parser knows one task request.
\<close>

definition spki_header :: "byte list" where
  "spki_header = [0x30, 0x2a, 0x30, 0x05, 0x06, 0x03, 0x2b, 0x65, 0x70, 0x03, 0x21, 0x00]"

definition quoted :: "string \<Rightarrow> string" where
  "quoted s = CHR 0x22 # s @ [CHR 0x22]"

definition demo_request_json :: string where
  "demo_request_json =
     ''{'' @ quoted ''type'' @ '':'' @ quoted ''task_request'' @ '','' @
     quoted ''task_id'' @ '':'' @ quoted ''t1'' @ '','' @
     quoted ''task_type'' @ '':'' @ quoted ''general'' @ '','' @
     quoted ''payload'' @ '':{'' @ quoted ''description'' @ '':'' @ quoted ''x'' @ '','' @
     quoted ''context'' @ '':{},'' @ quoted ''priority'' @ '':'' @ quoted ''medium'' @ ''},'' @
     quoted ''deadline'' @ '':null,'' @ quoted ''sender'' @ '':'' @ quoted ''0a0b0c0d'' @ ''}''"

definition demo_payload :: task_payload where
  "demo_payload = \<lparr> description = ''x'', payload_context = JObj [], priority = ''medium'' \<rparr>"

definition demo_api :: "(byte list, byte list) node_api" where
  "demo_api =
     \<lparr> createPublicKey =
         (\<lambda>der. if take 12 der = spki_header \<and> length der > 12 then Some (drop 12 der) else None),
       export_spki = (\<lambda>pk. spki_header @ pk),
       ed_sign = (\<lambda>sk m. sk @ m),
       ed_verify = (\<lambda>pk m sg. Some (sg = pk @ m)),
       buffer_from_object = (\<lambda>v. None),
       sha256 = (\<lambda>bs. bs),
       json_parse =
         (\<lambda>v. if v = JStr demo_request_json
              then Some (TaskRequest ''t1'' ''general'' demo_payload None ''0a0b0c0d'')
              else None),
       stringify_length = (\<lambda>v. 2) \<rparr>"

definition demo_ident :: "(byte list, byte list) identity" where
  "demo_ident = \<lparr> publicKey = [1, 2, 3], privateKey = [1, 2, 3] \<rparr>"

text \<open>A string is a hex string when it has an even number of characters, all hex digits.\<close>

definition is_hex_string :: "string \<Rightarrow> bool" where
  "is_hex_string s = (even (length s) \<and> list_all (\<lambda>c. hexval c \<noteq> None) s)"

section \<open>Example inputs\<close>

text \<open>Request bodies, frames and states on which the theorems below are run.\<close>

definition plain_body :: task_request_body where
  "plain_body =
     \<lparr> b_task_type = JUndefined, b_description = JStr ''x'', b_context = JUndefined,
       b_target = JUndefined, b_priority = JUndefined, b_deadline = None \<rparr>"

definition fresh_node :: node_state where
  "fresh_node = startup demo_api ''self'' 0"



text \<open>A task for the absent peer \<^verbatim>\<open>nobody\<close>, submitted at 0 and retried by two reaper ticks.\<close>

definition nobody_events :: "event list" where
  "nobody_events =
     [EvTaskRequest ''t1'' 0 (plain_body\<lparr> b_target := JStr ''nobody'' \<rparr>),
      EvRetryReaper 10000, EvRetryReaper 30000]"

text \<open>A node with one peer whose handshake carried the manifest \<^verbatim>\<open>{"agent_id": 5}\<close>.\<close>

definition odd_peer_node :: node_state where
  "odd_peer_node =
     dispatch ''peerkey'' 2 (Handshake (JObj [(''agent_id'', JNum 5)]))
       (on_connection ''peerkey'' 1 fresh_node)"

text \<open>
  A node with a task queued for the absent peer \<^verbatim>\<open>nobody\<close> and due at 10000, then a
  broadcast task with deadline 9999, and then that peer.
\<close>

definition stalled_node :: node_state where
  "stalled_node =
     dispatch ''peerkey'' 2 (Handshake (JObj [(''agent_id'', JNum 5)]))
       (on_connection ''peerkey'' 1
          (after_request fresh_node
             (post_task_request demo_api ''t2'' 0 (plain_body\<lparr> b_deadline := Some 9999 \<rparr>)
                (after_request fresh_node
                   (post_task_request demo_api ''t1'' 0 (plain_body\<lparr> b_target := JStr ''nobody'' \<rparr>)
                      fresh_node)))))"

text \<open>An A2A \<^verbatim>\<open>message/send\<close> with one text part and no target.\<close>

definition send_params :: jsval where
  "send_params =
     JObj [(''message'',
            JObj [(''role'', JStr ''user''),
                  (''parts'', JArr [JObj [(''kind'', JStr ''text''), (''text'', JStr ''Do X'')]])])]"

text \<open>The signed task request of the instance, and a node that has completed that task.\<close>

definition request_frame :: raw_frame where
  "request_frame = signMessage demo_api demo_ident 5 demo_request_json"

definition completed_node :: node_state where
  "completed_node =
     snd (post_task_respond
            \<lparr> rb_task_id = JStr ''t1'', rb_status = JStr ''completed'',
              rb_result = JStr ''done'', rb_error = JUndefined \<rparr>
            (on_data demo_api ''peerkey'' 100 (Some request_frame) fresh_node))"

section \<open>Auxiliary notions for the proofs\<close>

text \<open>The values \<^verbatim>\<open>Buffer.from\<close> throws on: undefined, null, a boolean, a number.\<close>

definition unbufferable :: "jsval \<Rightarrow> bool" where
  "unbufferable v = (case v of JUndefined \<Rightarrow> True | JNull \<Rightarrow> True | JBool _ \<Rightarrow> True | JNum _ \<Rightarrow> True | _ \<Rightarrow> False)"

text \<open>
  What one visit of the reaper leaves in the sent-task table for the visited entry
  (\<open>None\<close>: the entry is deleted), and what it puts into the dead-letter table
  (\<open>None\<close>: nothing). Both follow the branches of \<open>reaper_visit\<close>; a visit that throws
  leaves the entry and puts nothing.
\<close>

definition visit_sent :: "int \<Rightarrow> (string \<times> peer) list \<Rightarrow> sent_task \<Rightarrow> sent_task option" where
  "visit_sent now ps task =
     (if status task \<noteq> ''queued_for_retry'' \<and> status task \<noteq> ''pending'' then Some task
      else if deadline_passed now task then None
      else if status task \<noteq> ''queued_for_retry'' then Some task
      else if retry_not_due now task then Some task
      else case find_match (reaper_match (target task)) ps of
             Inl e \<Rightarrow> Some task
           | Inr (Some targetPeer) \<Rightarrow> Some (task\<lparr> status := ''pending'', lastAttemptAt := Some now \<rparr>)
           | Inr None \<Rightarrow> if attempts_exhausted task then None else Some (queueTaskForRetry now task))"

definition dead_entry :: "int \<Rightarrow> string \<Rightarrow> sent_task \<Rightarrow> sent_task" where
  "dead_entry now reason task =
     task\<lparr> status := ''failed'', failureReason := Some reason, failedAt := Some now \<rparr>"

definition visit_dead :: "int \<Rightarrow> (string \<times> peer) list \<Rightarrow> sent_task \<Rightarrow> sent_task option" where
  "visit_dead now ps task =
     (if status task \<noteq> ''queued_for_retry'' \<and> status task \<noteq> ''pending'' then None
      else if deadline_passed now task then Some (dead_entry now ''Deadline exceeded'' task)
      else if status task \<noteq> ''queued_for_retry'' then None
      else if retry_not_due now task then None
      else case find_match (reaper_match (target task)) ps of
             Inl e \<Rightarrow> None
           | Inr (Some targetPeer) \<Rightarrow> None
           | Inr None \<Rightarrow>
               if attempts_exhausted task then
                 Some (dead_entry now (''Peer offline after '' @ show_nat (attempts task) @ '' attempts'') task)
               else None)"

text \<open>Every peer's \<^verbatim>\<open>agent_id\<close> can be lowered: no peer search throws.\<close>

definition agents_readable :: "(string \<times> peer) list \<Rightarrow> bool" where
  "agents_readable ps = list_all (\<lambda>kp. agent_lower (snd kp) \<noteq> Inl TypeError) ps"

text \<open>
  A working key pair: the exported public key imports to the same key, and what the
  private key signs verifies under the public key.
\<close>

definition keypair_works :: "('pk, 'sk) node_api \<Rightarrow> ('pk, 'sk) identity \<Rightarrow> bool" where
  "keypair_works api ident =
     (createPublicKey api (export_spki api (publicKey ident)) = Some (publicKey ident)
      \<and> (\<forall>m. ed_verify api (publicKey ident) m (ed_sign api (privateKey ident) m) = Some True))"

text \<open>The two invariants of the sent-task table along a run.\<close>

definition keys_once :: "node_state \<Rightarrow> bool" where
  "keys_once st = distinct (map fst (sentTasks st))"

definition attempts_bounded :: "node_state \<Rightarrow> bool" where
  "attempts_bounded st = (\<forall>tid t. map_of (sentTasks st) tid = Some t \<longrightarrow> attempts t \<le> maxAttempts)"

section \<open>Encoding lemmas\<close>

lemma hexval_hexdigit: "n < 16 \<Longrightarrow> hexval (hexdigit n) = Some n"
  by (auto simp: hexval_def hexdigit_def Let_def)

lemma hex_decode_to_hex: "hex_decode (to_hex bs) = bs"
proof (induction bs)
  case Nil
  show ?case by simp
next
  case (Cons b bs)
  have hi: "hexval (hexdigit (unat b div 16)) = Some (unat b div 16)"
  proof (rule hexval_hexdigit)
    have "unat b < 256" using unsigned_less [of b] by simp
    then show "unat b div 16 < 16" by simp
  qed
  have lo: "hexval (hexdigit (unat b mod 16)) = Some (unat b mod 16)"
    by (rule hexval_hexdigit) simp
  have "(of_nat (16 * (unat b div 16) + unat b mod 16) :: byte) = b"
    by simp
  with hi lo Cons show ?case by simp
qed

section \<open>The example states\<close>

text \<open>The example inputs, run through the handlers.\<close>

lemma show_nat_3: "show_nat 3 = ''3''" by (simp add: char_of_eq_iff)

lemma fresh_node_tables:
  "peers fresh_node = []" "sentTasks fresh_node = []" "receivedTasks fresh_node = []"
  "deadLetterTasks fresh_node = []" "inbox fresh_node = []"
  by (simp_all add: fresh_node_def startup_def joinTopic_def Let_def)

lemma plain_body_fields:
  "b_task_type plain_body = JUndefined" "b_description plain_body = JStr ''x''"
  "b_context plain_body = JUndefined" "b_target plain_body = JUndefined"
  "b_priority plain_body = JUndefined" "b_deadline plain_body = None"
  by (simp_all add: plain_body_def)

lemma plain_body_valid:
  "validate_task_request api (plain_body\<lparr> b_target := JStr t \<rparr>) = None"
  "validate_task_request api (plain_body\<lparr> b_deadline := d \<rparr>) = None"
  by (simp_all add: validate_task_request_def plain_body_fields MAX_DESCRIPTION_LENGTH_def)

lemma backoff_values:
  "exponentialBackoff (Suc 0) = 10000" "exponentialBackoff (Suc (Suc 0)) = 20000"
  "exponentialBackoff (Suc (Suc (Suc 0))) = 40000"
  by (simp_all add: exponentialBackoff_def baseDelayMs_def maxDelayMs_def)

lemma nobody_submitted:
  "post_task_request demo_api ''t1'' 0 (plain_body\<lparr> b_target := JStr ''nobody'' \<rparr>) fresh_node =
     Inr ((202, [(''task_id'', JStr ''t1''), (''status'', JStr ''queued_for_retry''),
                 (''target'', JStr ''nobody''), (''sent_to'', JNum 0),
                 (''message'', JStr (''Peer '' @ [CHR 0x27] @ ''nobody'' @ [CHR 0x27] @ '' offline, queued for retry'')),
                 (''next_retry_at'', JNum 10000)]),
     fresh_node\<lparr> sentTasks :=
       [(''t1'', (new_sent_task ''nobody'' ''queued_for_retry'' demo_payload ''general'' 0 None)
                   \<lparr> attemptCount := Some 1, lastAttemptAt := Some 0,
                     nextRetryTime := Some 10000, peerWasOffline := True \<rparr>)] \<rparr>)"
  by (simp add: post_task_request_def plain_body_valid plain_body_fields fresh_node_tables Let_def
        str_or_def or_null_def demo_payload_def backoff_values)

lemma nobody_run:
  "run demo_api nobody_events fresh_node =
     fresh_node\<lparr> sentTasks :=
       [(''t1'', (new_sent_task ''nobody'' ''queued_for_retry'' demo_payload ''general'' 0 None)
                   \<lparr> attemptCount := Some 3, lastAttemptAt := Some 30000,
                     nextRetryTime := Some 70000, peerWasOffline := True \<rparr>)] \<rparr>"
  by (simp add: nobody_events_def nobody_submitted after_request_def retry_reaper_def reaper_visit_def
        fresh_node_tables new_sent_task_def deadline_passed_def retry_not_due_def
        attempts_exhausted_def maxAttempts_def queueTaskForRetry_def attempts_def backoff_values
        eval_nat_numeral)



lemma odd_peer_node_tables:
  "peers odd_peer_node =
     [(''peerkey'', \<lparr> lastSeen = 1, peer_manifest = JObj [(''agent_id'', JNum 5)] \<rparr>)]"
  "sentTasks odd_peer_node = []" "deadLetterTasks odd_peer_node = []"
  by (simp_all add: odd_peer_node_def on_connection_def fresh_node_tables)

lemma send_params_valid: "validateMessageSendParams send_params = None"
  by (simp add: validateMessageSendParams_def send_params_def is_object_def field_def
        nonempty_string_def Let_def)

section \<open>The signed envelope\<close>

text \<open>What \<open>verifyMessage\<close> computes on an envelope whose three fields are strings.\<close>

lemma verifyMessage_strings:
  "verifyMessage api \<lparr> rtype = t, content = JStr c, senderKey = JStr k, signature = JStr g, timestamp = ts \<rparr> =
     Inr (case createPublicKey api (hex_decode k) of
            None \<Rightarrow> False
          | Some pk \<Rightarrow> ed_verify api pk (utf8 c) (hex_decode g) = Some True)"
  by (auto simp: verifyMessage_def verifyMessage_try_def buffer_from_def split: option.splits)

lemma signMessage_verifies:
  assumes "createPublicKey api (export_spki api (publicKey ident)) = Some (publicKey ident)"
      and "\<And>m. ed_verify api (publicKey ident) m (ed_sign api (privateKey ident) m) = Some True"
  shows "verifyMessage api (signMessage api ident now s) = Inr True"
  using assms
  by (simp add: signMessage_def verifyMessage_strings myPeerId_def hex_decode_to_hex)

lemma demo_keys:
  "createPublicKey demo_api (export_spki demo_api (publicKey demo_ident)) = Some (publicKey demo_ident)"
  "ed_verify demo_api (publicKey demo_ident) m (ed_sign demo_api (privateKey demo_ident) m) = Some True"
  by (simp_all add: demo_api_def demo_ident_def spki_header_def)

lemma request_frame_facts:
  "rtype request_frame \<noteq> JStr ''ping''"
  "truthy (signature request_frame)"
  "truthy (senderKey request_frame)"
  "verifyMessage demo_api request_frame = Inr True"
  "json_parse demo_api (content request_frame)
     = Some (TaskRequest ''t1'' ''general'' demo_payload None ''0a0b0c0d'')"
proof -
  show "rtype request_frame \<noteq> JStr ''ping''"
    by (simp add: request_frame_def signMessage_def)
  show "truthy (signature request_frame)"
    by (simp add: request_frame_def signMessage_def demo_api_def demo_ident_def)
  show "truthy (senderKey request_frame)"
    by (simp add: request_frame_def signMessage_def myPeerId_def demo_api_def spki_header_def)
  show "verifyMessage demo_api request_frame = Inr True"
    unfolding request_frame_def by (rule signMessage_verifies) (simp_all add: demo_keys)
  show "json_parse demo_api (content request_frame)
     = Some (TaskRequest ''t1'' ''general'' demo_payload None ''0a0b0c0d'')"
    by (simp add: request_frame_def signMessage_def demo_api_def)
qed

text \<open>
  Claim C1 (signature round-trip). Let the node's key pair be a working Ed25519 pair:
  the exported public key imports to the same key, and a signature made with the private
  key verifies under the public key. Then for every payload string \<open>s\<close>,
  \<open>verifyMessage\<close> returns true on the envelope \<open>signMessage\<close> produces for \<open>s\<close>. The
  envelope carries \<open>s\<close> verbatim as its content, the node's hex SPKI key as sender key,
  and the hex encoding of the signature over the UTF-8 bytes of \<open>s\<close>; and
  \<open>verifyMessage\<close>, on an envelope of strings, checks the decoded signature over the
  UTF-8 bytes of the content string as it stands, under the key decoded from the
  envelope's own sender key.
\<close>

theorem sign_verify_roundtrip:
  assumes der: "createPublicKey api (export_spki api (publicKey ident)) = Some (publicKey ident)"
      and ok: "\<And>m. ed_verify api (publicKey ident) m (ed_sign api (privateKey ident) m) = Some True"
  shows "verifyMessage api (signMessage api ident now s) = Inr True
       \<and> content (signMessage api ident now s) = JStr s
       \<and> senderKey (signMessage api ident now s) = JStr (myPeerId api ident)
       \<and> signature (signMessage api ident now s) = JStr (to_hex (ed_sign api (privateKey ident) (utf8 s)))
       \<and> (\<forall>c k g t ts.
             verifyMessage api
               \<lparr> rtype = t, content = JStr c, senderKey = JStr k, signature = JStr g, timestamp = ts \<rparr> =
             Inr (case createPublicKey api (hex_decode k) of
                    None \<Rightarrow> False
                  | Some pk \<Rightarrow> ed_verify api pk (utf8 c) (hex_decode g) = Some True))"
proof -
  have "verifyMessage api (signMessage api ident now s) = Inr True"
    using der ok by (rule signMessage_verifies)
  then show ?thesis
    by (simp add: signMessage_def verifyMessage_strings myPeerId_def)
qed

theorem sign_verify_roundtrip_witness:
  "createPublicKey demo_api (export_spki demo_api (publicKey demo_ident)) = Some (publicKey demo_ident)
   \<and> (\<forall>m. ed_verify demo_api (publicKey demo_ident) m (ed_sign demo_api (privateKey demo_ident) m) = Some True)
   \<and> verifyMessage demo_api (signMessage demo_api demo_ident 1700000000000 ''hello'') = Inr True
   \<and> content (signMessage demo_api demo_ident 1700000000000 ''hello'') = JStr ''hello''"
proof -
  note der = demo_keys(1) and ok = demo_keys(2)
  from sign_verify_roundtrip [OF der ok, of 1700000000000 "''hello''"] der ok
  show ?thesis by simp
qed

text \<open>
  The hex decoder stops at the first pair that is not hex: what follows a hex string
  from there on is ignored. So an envelope the node signed still verifies when \<^verbatim>\<open>zz\<close> is
  appended to its signature, under any working key pair.
\<close>

lemma hex_decode_trailing: "hex_decode (to_hex bs @ ''zz'') = bs"
proof (induction bs)
  case Nil
  show ?case by (simp add: hexval_def)
next
  case (Cons b bs)
  have "unat b < 256" using unsigned_less [of b] by simp
  then have "unat b div 16 < 16" by simp
  then have hi: "hexval (hexdigit (unat b div 16)) = Some (unat b div 16)"
    by (rule hexval_hexdigit)
  have lo: "hexval (hexdigit (unat b mod 16)) = Some (unat b mod 16)"
    by (rule hexval_hexdigit) simp
  have "(of_nat (16 * (unat b div 16) + unat b mod 16) :: byte) = b"
    by simp
  with hi lo Cons show ?case by simp
qed

lemma not_hex_trailing: "\<not> is_hex_string (s @ ''zz'')"
  by (simp add: is_hex_string_def hexval_def)

lemma trailing_garbage_verifies:
  assumes "keypair_works api ident"
  shows "verifyMessage api
           ((signMessage api ident now s)
              \<lparr> signature := JStr (to_hex (ed_sign api (privateKey ident) (utf8 s)) @ ''zz'') \<rparr>)
         = Inr True"
  using assms
  by (simp add: keypair_works_def signMessage_def verifyMessage_strings myPeerId_def
        hex_decode_to_hex hex_decode_trailing)

text \<open>
  Claim C10, as stated, fails on the code: a signature that is not a hex string is not
  rejected as such. The key pair of the example instance works, so working key pairs
  exist; and under no working key pair does \<open>verifyMessage\<close> return false on every
  envelope whose signature is not a hex string, since the node's own envelope with
  \<^verbatim>\<open>zz\<close> appended to the signature verifies.
\<close>

theorem verifyMessage_trailing_garbage_counterexample:
  "keypair_works demo_api demo_ident
   \<and> \<not> (\<exists>(api :: ('pk, 'sk) node_api) ident.
          keypair_works api ident
          \<and> (\<forall>m. (\<exists>g. signature m = JStr g \<and> \<not> is_hex_string g)
                   \<longrightarrow> verifyMessage api m = Inr False))"
proof (intro conjI notI)
  show "keypair_works demo_api demo_ident"
    by (simp add: keypair_works_def demo_keys)
next
  assume "\<exists>(api :: ('pk, 'sk) node_api) ident.
          keypair_works api ident
          \<and> (\<forall>m. (\<exists>g. signature m = JStr g \<and> \<not> is_hex_string g)
                   \<longrightarrow> verifyMessage api m = Inr False)"
  then obtain api :: "('pk, 'sk) node_api" and ident
    where w: "keypair_works api ident"
      and c: "\<And>m g. signature m = JStr g \<Longrightarrow> \<not> is_hex_string g \<Longrightarrow> verifyMessage api m = Inr False"
    by blast
  let ?g = "to_hex (ed_sign api (privateKey ident) (utf8 [])) @ ''zz''"
  let ?m = "(signMessage api ident 0 [])\<lparr> signature := JStr ?g \<rparr>"
  have "verifyMessage api ?m = Inr False"
    by (rule c [of ?m ?g]) (simp_all add: not_hex_trailing)
  moreover have "verifyMessage api ?m = Inr True"
    using w by (rule trailing_garbage_verifies)
  ultimately show False by simp
qed

text \<open>
  Claim C10 as amended. \<open>verifyMessage\<close> is total: for every input record it returns a
  boolean and never throws. It returns false when the sender key, the content or the
  signature is missing, null, a boolean or a number, and when the bytes decoded from
  the sender key are not a key \<open>createPublicKey\<close> accepts. When the three fields are
  strings, the result is the Ed25519 check of the decoded signature over the UTF-8
  bytes of the content under the decoded key, where decoding a string stops at its first
  pair that is not hex.
\<close>

theorem verifyMessage_total:
  "(\<exists>b. verifyMessage api m = Inr b)
   \<and> (unbufferable (senderKey m) \<or> unbufferable (content m) \<or> unbufferable (signature m)
        \<longrightarrow> verifyMessage api m = Inr False)
   \<and> (\<forall>k. senderKey m = JStr k \<and> createPublicKey api (hex_decode k) = None
        \<longrightarrow> verifyMessage api m = Inr False)
   \<and> (\<forall>k c g. senderKey m = JStr k \<and> content m = JStr c \<and> signature m = JStr g
        \<longrightarrow> verifyMessage api m =
              Inr (case createPublicKey api (hex_decode k) of
                     None \<Rightarrow> False
                   | Some pk \<Rightarrow> ed_verify api pk (utf8 c) (hex_decode g) = Some True))"
proof (intro conjI)
  show "\<exists>b. verifyMessage api m = Inr b"
    by (cases "verifyMessage_try api m") (auto simp: verifyMessage_def)
  show "unbufferable (senderKey m) \<or> unbufferable (content m) \<or> unbufferable (signature m)
        \<longrightarrow> verifyMessage api m = Inr False"
    by (auto simp: verifyMessage_def verifyMessage_try_def buffer_from_def unbufferable_def
             split: sum.splits option.splits jsval.splits)
  show "\<forall>k. senderKey m = JStr k \<and> createPublicKey api (hex_decode k) = None
        \<longrightarrow> verifyMessage api m = Inr False"
    by (auto simp: verifyMessage_def verifyMessage_try_def buffer_from_def)
  show "\<forall>k c g. senderKey m = JStr k \<and> content m = JStr c \<and> signature m = JStr g
        \<longrightarrow> verifyMessage api m =
              Inr (case createPublicKey api (hex_decode k) of
                     None \<Rightarrow> False
                   | Some pk \<Rightarrow> ed_verify api pk (utf8 c) (hex_decode g) = Some True)"
    by (auto simp: verifyMessage_def verifyMessage_try_def buffer_from_def split: option.splits)
qed

theorem verifyMessage_total_witness:
  "unbufferable JUndefined
   \<and> verifyMessage demo_api \<lparr> rtype = JUndefined, content = JStr ''hi'', senderKey = JUndefined,
       signature = JStr ''0102036869'', timestamp = JNum 0 \<rparr> = Inr False
   \<and> createPublicKey demo_api (hex_decode ''zz'') = None
   \<and> verifyMessage demo_api \<lparr> rtype = JUndefined, content = JStr ''hi'', senderKey = JStr ''zz'',
       signature = JStr ''0102036869'', timestamp = JNum 0 \<rparr> = Inr False
   \<and> createPublicKey demo_api (hex_decode ''302a300506032b6570032100010203'') = Some [1, 2, 3]
   \<and> verifyMessage demo_api \<lparr> rtype = JUndefined, content = JStr ''hi'',
       senderKey = JStr ''302a300506032b6570032100010203'',
       signature = JStr ''0102036869'', timestamp = JNum 0 \<rparr> = Inr True"
proof -
  let ?missing = "\<lparr> rtype = JUndefined, content = JStr ''hi'', senderKey = JUndefined,
       signature = JStr ''0102036869'', timestamp = JNum 0 \<rparr>"
  let ?badkey = "\<lparr> rtype = JUndefined, content = JStr ''hi'', senderKey = JStr ''zz'',
       signature = JStr ''0102036869'', timestamp = JNum 0 \<rparr>"
  let ?good = "\<lparr> rtype = JUndefined, content = JStr ''hi'',
       senderKey = JStr ''302a300506032b6570032100010203'',
       signature = JStr ''0102036869'', timestamp = JNum 0 \<rparr>"
  have u: "unbufferable JUndefined" by (simp add: unbufferable_def)
  have n: "createPublicKey demo_api (hex_decode ''zz'') = None"
    by (simp add: hexval_def demo_api_def)
  have k: "createPublicKey demo_api (hex_decode ''302a300506032b6570032100010203'') = Some [1, 2, 3]"
    by (simp add: hexval_def demo_api_def spki_header_def)
  have v: "ed_verify demo_api [1, 2, 3] (utf8 ''hi'') (hex_decode ''0102036869'') = Some True"
    by (simp add: hexval_def demo_api_def utf8_def utf8_char_def)
  from verifyMessage_total [of demo_api ?missing] u
  have 1: "verifyMessage demo_api ?missing = Inr False" by simp
  from verifyMessage_total [of demo_api ?badkey] n
  have 2: "verifyMessage demo_api ?badkey = Inr False" by simp
  from verifyMessage_total [of demo_api ?good] k v
  have 3: "verifyMessage demo_api ?good = Inr True" by simp
  from u n k 1 2 3 show ?thesis by simp
qed

section \<open>Inbox\<close>

text \<open>
  Claim C7 (reading the inbox drains it). \<^verbatim>\<open>GET /inbox\<close> answers with the count and the
  list of all buffered messages, each once and in arrival order, and leaves the inbox
  empty; a second read with nothing arriving in between answers with a count of zero
  and no messages.
\<close>

theorem inbox_drains:
  "fst (get_inbox st) = (length (inbox st), inbox st)
   \<and> inbox (snd (get_inbox st)) = []
   \<and> fst (get_inbox (snd (get_inbox st))) = (0, [])"
  by (simp add: get_inbox_def Let_def)

section \<open>Topics\<close>

text \<open>
  Claim C8 (leaving the default topic is forbidden) against the code. In the state the
  node starts in, \<open>leaveTopic\<close> on the default topic returns true and removes the topic,
  and \<^verbatim>\<open>POST /leave\<close> with that name answers 200 with status \<^verbatim>\<open>left\<close>: neither function
  has a guard for the default topic.
\<close>

theorem leave_default_topic_succeeds:
  "leaveTopic defaultTopic (startup api selfId now)
     = (True, (startup api selfId now)\<lparr> swarmTopics := [], activeTopics := [] \<rparr>)
   \<and> fst (post_leave (JStr defaultTopic) (startup api selfId now))
     = (200, [(''status'', JStr ''left''), (''topic'', JStr defaultTopic)])
   \<and> map_of (activeTopics (snd (post_leave (JStr defaultTopic) (startup api selfId now)))) defaultTopic = None"
  by (simp add: post_leave_def leaveTopic_def startup_def joinTopic_def defaultTopic_def Let_def)

section \<open>The retry reaper\<close>

text \<open>
  A peer search throws only at a peer whose \<^verbatim>\<open>agent_id\<close> cannot be lowered. A visit changes
  the visited entry only; the peer table is read, never written. With each id once in
  the table, a tick that does not throw therefore does to every entry what a single
  visit does to it in the state before the tick, and an entry that a visit would leave
  alone is left alone by every tick.
\<close>

lemma reaper_search_readable:
  "agents_readable ps \<Longrightarrow> \<exists>r. find_match (reaper_match tgt) ps = Inr r"
proof (induction ps)
  case Nil
  show ?case by simp
next
  case (Cons kp ps)
  then obtain a where a: "agent_lower (snd kp) = Inr a"
    by (cases "agent_lower (snd kp)") (auto simp: agents_readable_def agent_lower_def split: jsval.splits)
  from Cons have "\<exists>r. find_match (reaper_match tgt) ps = Inr r"
    by (simp add: agents_readable_def)
  moreover from a have "\<exists>b. reaper_match tgt kp = Inr b"
    by (auto simp: reaper_match_def)
  then obtain b where "reaper_match tgt kp = Inr b" by blast
  ultimately show ?case by (cases b) auto
qed

lemma no_match_readable:
  assumes "\<forall>kp \<in> set ps. reaper_match tgt kp = Inr False"
  shows "agents_readable ps \<and> find_match (reaper_match tgt) ps = Inr None"
  using assms
proof (induction ps)
  case Nil
  show ?case by (simp add: agents_readable_def)
next
  case (Cons kp ps)
  then have "reaper_match tgt kp = Inr False" by simp
  then have "agent_lower (snd kp) \<noteq> Inl TypeError"
    by (auto simp: reaper_match_def split: if_splits sum.splits)
  with Cons show ?case by (simp add: agents_readable_def)
qed

text \<open>The visit of an entry, by the outcome of the peer search.\<close>

lemma reaper_visit_cases:
  assumes "reaper_visit now k st = Inr st'"
  obtains
    (absent) "map_of (sentTasks st) k = None" "st' = st"
  | (skipped) t where "map_of (sentTasks st) k = Some t" "st' = st"
      "visit_sent now (peers st) t = Some t" "visit_dead now (peers st) t = None"
  | (dead) t d where "map_of (sentTasks st) k = Some t"
      "visit_sent now (peers st) t = None" "visit_dead now (peers st) t = Some d"
      "st' = st\<lparr> deadLetterTasks := AList.update k d (deadLetterTasks st),
                  sentTasks := AList.delete k (sentTasks st) \<rparr>"
  | (kept) t t' ob where "map_of (sentTasks st) k = Some t"
      "visit_sent now (peers st) t = Some t'" "visit_dead now (peers st) t = None"
      "st' = st\<lparr> outbox := ob, sentTasks := AList.update k t' (sentTasks st) \<rparr>"
proof (cases "map_of (sentTasks st) k")
  case None
  with assms have "st' = st" by (simp add: reaper_visit_def)
  with None show ?thesis by (rule absent)
next
  case (Some t)
  show ?thesis
  proof (cases "status t \<noteq> ''queued_for_retry'' \<and> status t \<noteq> ''pending''")
    case True
    with assms Some have "st' = st" by (simp add: reaper_visit_def)
    with Some True show ?thesis
      by (intro skipped [of t]) (simp_all add: visit_sent_def visit_dead_def)
  next
    case a: False
    show ?thesis
    proof (cases "deadline_passed now t")
      case True
      with assms Some a show ?thesis
        by (intro dead [of t "dead_entry now ''Deadline exceeded'' t"])
           (auto simp: reaper_visit_def visit_sent_def visit_dead_def moveToDeadLetter_def dead_entry_def)
    next
      case b: False
      show ?thesis
      proof (cases "status t \<noteq> ''queued_for_retry'' \<or> retry_not_due now t")
        case True
        with assms Some a b have "st' = st" by (auto simp: reaper_visit_def)
        with Some a b True show ?thesis
          by (intro skipped [of t]) (auto simp: visit_sent_def visit_dead_def)
      next
        case c: False
        show ?thesis
        proof (cases "find_match (reaper_match (target t)) (peers st)")
          case (Inl e)
          with assms Some a b c show ?thesis by (simp add: reaper_visit_def)
        next
          case (Inr r)
          show ?thesis
          proof (cases r)
            case (Some targetPeer)
            with assms \<open>map_of (sentTasks st) k = Some t\<close> a b c Inr show ?thesis
              by (intro kept [of t "t\<lparr> status := ''pending'', lastAttemptAt := Some now \<rparr>"])
                 (auto simp: reaper_visit_def visit_sent_def visit_dead_def)
          next
            case None
            show ?thesis
            proof (cases "attempts_exhausted t")
              case True
              with assms \<open>map_of (sentTasks st) k = Some t\<close> a b c Inr None show ?thesis
                by (intro dead [of t "dead_entry now
                       (''Peer offline after '' @ show_nat (attempts t) @ '' attempts'') t"])
                   (auto simp: reaper_visit_def visit_sent_def visit_dead_def moveToDeadLetter_def
                               dead_entry_def)
            next
              case False
              with assms \<open>map_of (sentTasks st) k = Some t\<close> a b c Inr None
              have "st' = st\<lparr> outbox := outbox st,
                             sentTasks := AList.update k (queueTaskForRetry now t) (sentTasks st) \<rparr>"
                by (auto simp: reaper_visit_def)
              with \<open>map_of (sentTasks st) k = Some t\<close> a b c Inr None False show ?thesis
                by (intro kept [of t "queueTaskForRetry now t" "outbox st"])
                   (auto simp: visit_sent_def visit_dead_def)
            qed
          qed
        qed
      qed
    qed
  qed
qed

lemma reaper_visit_peers: "reaper_visit now k st = Inr st' \<Longrightarrow> peers st' = peers st"
  by (erule reaper_visit_cases) simp_all

lemma reaper_visit_sent:
  "reaper_visit now k st = Inr st' \<Longrightarrow>
   map_of (sentTasks st') =
     (case map_of (sentTasks st) k of
        None \<Rightarrow> map_of (sentTasks st)
      | Some t \<Rightarrow> (map_of (sentTasks st))(k := visit_sent now (peers st) t))"
  by (erule reaper_visit_cases) (auto simp: update_conv' delete_conv')

lemma reaper_visit_dead:
  "reaper_visit now k st = Inr st' \<Longrightarrow>
   map_of (deadLetterTasks st') =
     (case map_of (sentTasks st) k of
        None \<Rightarrow> map_of (deadLetterTasks st)
      | Some t \<Rightarrow> (case visit_dead now (peers st) t of
                    None \<Rightarrow> map_of (deadLetterTasks st)
                  | Some d \<Rightarrow> (map_of (deadLetterTasks st))(k \<mapsto> d)))"
  by (erule reaper_visit_cases) (auto simp: update_conv' delete_conv')

lemma reaper_visit_readable:
  "agents_readable (peers st) \<Longrightarrow> \<exists>st'. reaper_visit now k st = Inr st'"
proof -
  assume "agents_readable (peers st)"
  then have "\<And>tgt. \<exists>r. find_match (reaper_match tgt) (peers st) = Inr r"
    by (rule reaper_search_readable)
  then have "\<And>tgt. find_match (reaper_match tgt) (peers st) \<noteq> Inl TypeError"
    by (metis sum.distinct(1))
  moreover have "\<And>tgt e. find_match (reaper_match tgt) (peers st) = Inl e \<Longrightarrow> False"
    using \<open>\<And>tgt. \<exists>r. find_match (reaper_match tgt) (peers st) = Inr r\<close> by (metis sum.distinct(1))
  ultimately show ?thesis
    by (cases "reaper_visit now k st")
       (auto simp: reaper_visit_def split: option.splits sum.splits if_splits)
qed

lemma reaper_loop_peers: "peers (fst (reaper_loop now ks st)) = peers st"
  by (induction ks arbitrary: st) (auto simp: reaper_visit_peers split: sum.splits)

lemma reaper_loop_readable:
  "agents_readable (peers st) \<Longrightarrow> snd (reaper_loop now ks st) = None"
proof (induction ks arbitrary: st)
  case Nil
  show ?case by simp
next
  case (Cons k ks)
  from reaper_visit_readable [OF Cons.prems, of now k]
  obtain st' where v: "reaper_visit now k st = Inr st'" by blast
  then have "peers st' = peers st" by (rule reaper_visit_peers)
  with Cons v show ?case by simp
qed

lemma reaper_loop_sent:
  "distinct ks \<Longrightarrow> snd (reaper_loop now ks st) = None \<Longrightarrow>
   map_of (sentTasks (fst (reaper_loop now ks st))) tid =
     (if tid \<in> set ks
      then (case map_of (sentTasks st) tid of None \<Rightarrow> None | Some t \<Rightarrow> visit_sent now (peers st) t)
      else map_of (sentTasks st) tid)"
proof (induction ks arbitrary: st)
  case Nil
  show ?case by simp
next
  case (Cons k ks)
  from Cons.prems have d: "distinct ks" and nk: "k \<notin> set ks" by simp_all
  from Cons.prems obtain st' where v: "reaper_visit now k st = Inr st'"
    by (cases "reaper_visit now k st") simp_all
  with Cons.prems have c: "snd (reaper_loop now ks st') = None" by simp
  note s = reaper_visit_sent [OF v] and p = reaper_visit_peers [OF v]
  show ?case
  proof (cases "k = tid")
    case True
    with nk have "tid \<notin> set ks" by simp
    with Cons.IH [OF d c] True v s show ?thesis
      by (simp split: option.splits)
  next
    case False
    with Cons.IH [OF d c] v s p show ?thesis
      by (simp split: option.splits)
  qed
qed

lemma reaper_loop_dead:
  "distinct ks \<Longrightarrow> snd (reaper_loop now ks st) = None \<Longrightarrow>
   map_of (deadLetterTasks (fst (reaper_loop now ks st))) tid =
     (if tid \<in> set ks
      then (case map_of (sentTasks st) tid of
              None \<Rightarrow> map_of (deadLetterTasks st) tid
            | Some t \<Rightarrow> (case visit_dead now (peers st) t of
                          None \<Rightarrow> map_of (deadLetterTasks st) tid
                        | Some d \<Rightarrow> Some d))
      else map_of (deadLetterTasks st) tid)"
proof (induction ks arbitrary: st)
  case Nil
  show ?case by simp
next
  case (Cons k ks)
  from Cons.prems have d: "distinct ks" and nk: "k \<notin> set ks" by simp_all
  from Cons.prems obtain st' where v: "reaper_visit now k st = Inr st'"
    by (cases "reaper_visit now k st") simp_all
  with Cons.prems have c: "snd (reaper_loop now ks st') = None" by simp
  note s = reaper_visit_sent [OF v] and dd = reaper_visit_dead [OF v] and p = reaper_visit_peers [OF v]
  show ?case
  proof (cases "k = tid")
    case True
    with nk have "tid \<notin> set ks" by simp
    with Cons.IH [OF d c] True v dd show ?thesis
      by (simp split: option.splits)
  next
    case False
    with Cons.IH [OF d c] v s dd p show ?thesis
      by (simp split: option.splits)
  qed
qed


lemma retry_reaper_sent:
  assumes "keys_once st" and "snd (retry_reaper now st) = None"
  shows "map_of (sentTasks (fst (retry_reaper now st))) tid =
           (case map_of (sentTasks st) tid of None \<Rightarrow> None | Some t \<Rightarrow> visit_sent now (peers st) t)"
proof -
  have "tid \<in> set (map fst (sentTasks st)) \<longleftrightarrow> map_of (sentTasks st) tid \<noteq> None"
    by (simp add: map_of_eq_None_iff)
  with assms show ?thesis
    unfolding retry_reaper_def keys_once_def
    by (auto simp: reaper_loop_sent split: option.splits)
qed

lemma retry_reaper_dead:
  assumes "keys_once st" and "snd (retry_reaper now st) = None"
  shows "map_of (deadLetterTasks (fst (retry_reaper now st))) tid =
           (case map_of (sentTasks st) tid of
              None \<Rightarrow> map_of (deadLetterTasks st) tid
            | Some t \<Rightarrow> (case visit_dead now (peers st) t of
                          None \<Rightarrow> map_of (deadLetterTasks st) tid
                        | Some d \<Rightarrow> Some d))"
proof -
  have "tid \<in> set (map fst (sentTasks st)) \<longleftrightarrow> map_of (sentTasks st) tid \<noteq> None"
    by (simp add: map_of_eq_None_iff)
  with assms show ?thesis
    unfolding retry_reaper_def keys_once_def
    by (auto simp: reaper_loop_dead split: option.splits)
qed

text \<open>
  What the peer with the numeric \<^verbatim>\<open>agent_id\<close> does to the two loops: the request for an
  unmatched target throws before anything is stored, and the tick throws at its first
  due task and never comes to the overdue one behind it.
\<close>

lemma odd_peer_request_throws:
  "post_task_request demo_api ''t1'' 500 (plain_body\<lparr> b_target := JStr ''nobody'' \<rparr>) odd_peer_node
     = Inl TypeError"
  by (simp add: post_task_request_def plain_body_valid plain_body_fields odd_peer_node_tables
        Let_def request_match_def agent_lower_def field_def slice_last8_def)

lemma stalled_node_tables:
  "sentTasks stalled_node =
     [(''t1'', (new_sent_task ''nobody'' ''queued_for_retry'' demo_payload ''general'' 0 None)
                 \<lparr> attemptCount := Some 1, lastAttemptAt := Some 0,
                   nextRetryTime := Some 10000, peerWasOffline := True \<rparr>),
      (''t2'', new_sent_task ''*'' ''pending'' demo_payload ''general'' 0 (Some 9999))]"
  "peers stalled_node =
     [(''peerkey'', \<lparr> lastSeen = 1, peer_manifest = JObj [(''agent_id'', JNum 5)] \<rparr>)]"
  "deadLetterTasks stalled_node = []"
  by (simp_all add: stalled_node_def after_request_def on_connection_def
        post_task_request_def plain_body_valid plain_body_fields fresh_node_tables Let_def
        str_or_def or_null_def demo_payload_def backoff_values)

lemma stalled_tick_throws:
  "retry_reaper 10000 stalled_node = (stalled_node, Some TypeError)"
  by (simp add: retry_reaper_def stalled_node_tables reaper_visit_def new_sent_task_def
        deadline_passed_def retry_not_due_def reaper_match_def agent_lower_def field_def
        slice_last8_def)




section \<open>Task submission\<close>





section \<open>Received tasks\<close>

text \<open>
  Claim C9 (a repeated task request overwrites). A frame that is not a ping, carries a
  signature and a sender key, passes \<open>verifyMessage\<close> and parses to a task request
  stores a fresh entry under the request's task id: status \<^verbatim>\<open>pending\<close>, createdAt the
  current time, no result and no error. Nothing about an entry already stored under
  that id is consulted, so whatever status (accepted, in_progress, completed) and result
  the local agent had recorded through \<^verbatim>\<open>/task/respond\<close> are replaced. The other
  entries of the table are untouched.
\<close>

theorem task_request_overwrites:
  assumes "rtype raw \<noteq> JStr ''ping''" and "truthy (signature raw)" and "truthy (senderKey raw)"
      and "verifyMessage api raw = Inr True"
      and "json_parse api (content raw) = Some (TaskRequest tid ttype pl dl sndr)"
  shows "map_of (receivedTasks (on_data api remoteKey now (Some raw) st)) tid =
           Some \<lparr> from_key = remoteKey, fromShortId = slice_last8 remoteKey,
                  r_status = ''pending'', r_payload = pl, r_task_type = ttype,
                  r_createdAt = now, r_deadline = dl, r_result = JUndefined, r_error = JUndefined \<rparr>
       \<and> (\<forall>k. k \<noteq> tid \<longrightarrow>
             map_of (receivedTasks (on_data api remoteKey now (Some raw) st)) k
               = map_of (receivedTasks st) k)"
  using assms
  by (simp add: on_data_def inbox_push_def update_conv')

theorem task_request_overwrites_witness:
  "map_of (receivedTasks completed_node) ''t1'' =
     Some \<lparr> from_key = ''peerkey'', fromShortId = ''peerkey'',
            r_status = ''completed'', r_payload = demo_payload, r_task_type = ''general'',
            r_createdAt = 100, r_deadline = None, r_result = JStr ''done'', r_error = JUndefined \<rparr>
   \<and> verifyMessage demo_api request_frame = Inr True
   \<and> map_of (receivedTasks (on_data demo_api ''peerkey'' 200 (Some request_frame) completed_node)) ''t1'' =
     Some \<lparr> from_key = ''peerkey'', fromShortId = ''peerkey'',
            r_status = ''pending'', r_payload = demo_payload, r_task_type = ''general'',
            r_createdAt = 200, r_deadline = None, r_result = JUndefined, r_error = JUndefined \<rparr>"
proof -
  note f = request_frame_facts
  have s: "slice_last8 ''peerkey'' = ''peerkey''" by (simp add: slice_last8_def)
  from task_request_overwrites [OF f, of "''peerkey''" 100 fresh_node] s
  have first: "map_of (receivedTasks (on_data demo_api ''peerkey'' 100 (Some request_frame) fresh_node)) ''t1'' =
     Some \<lparr> from_key = ''peerkey'', fromShortId = ''peerkey'',
            r_status = ''pending'', r_payload = demo_payload, r_task_type = ''general'',
            r_createdAt = 100, r_deadline = None, r_result = JUndefined, r_error = JUndefined \<rparr>"
    by simp
  have old: "map_of (receivedTasks completed_node) ''t1'' =
     Some \<lparr> from_key = ''peerkey'', fromShortId = ''peerkey'',
            r_status = ''completed'', r_payload = demo_payload, r_task_type = ''general'',
            r_createdAt = 100, r_deadline = None, r_result = JStr ''done'', r_error = JUndefined \<rparr>"
    using first
    by (simp add: completed_node_def post_task_respond_def array_includes_def validStatuses_def
          Let_def update_conv')
  from task_request_overwrites [OF f, of "''peerkey''" 200 completed_node] old f(4) s
  show ?thesis by simp
qed

section \<open>Invariants of the sent-task table\<close>

text \<open>
  Each event keeps every task id once in the sent-task table and every attempt count at
  most \<open>maxAttempts\<close>: a count is only raised by \<open>queueTaskForRetry\<close>, which the reaper
  calls for a task that has not yet reached the maximum. A tick that throws has kept
  both up to the entry at which it stopped.
\<close>

lemma visit_sent_bounded:
  "visit_sent now ps t0 = Some t \<Longrightarrow> attempts t0 \<le> maxAttempts \<Longrightarrow> attempts t \<le> maxAttempts"
  by (auto simp: visit_sent_def queueTaskForRetry_def attempts_def attempts_exhausted_def
                 maxAttempts_def
           split: if_splits option.splits sum.splits)

lemma reaper_visit_bounded:
  "attempts_bounded st \<Longrightarrow> reaper_visit now k st = Inr st' \<Longrightarrow> attempts_bounded st'"
  unfolding attempts_bounded_def
  by (auto simp: reaper_visit_sent dest: visit_sent_bounded split: option.splits if_splits)

lemma reaper_loop_bounded:
  "attempts_bounded st \<Longrightarrow> attempts_bounded (fst (reaper_loop now ks st))"
  by (induction ks arbitrary: st) (auto simp: reaper_visit_bounded split: sum.splits)

lemma reaper_visit_keys: "keys_once st \<Longrightarrow> reaper_visit now k st = Inr st' \<Longrightarrow> keys_once st'"
  by (erule reaper_visit_cases) (auto simp: keys_once_def distinct_update distinct_delete)

lemma reaper_loop_keys: "keys_once st \<Longrightarrow> keys_once (fst (reaper_loop now ks st))"
  by (induction ks arbitrary: st) (auto simp: reaper_visit_keys split: sum.splits)

lemma dispatch_keys: "keys_once st \<Longrightarrow> keys_once (dispatch key now msg st)"
  by (cases msg) (auto simp: keys_once_def inbox_push_def distinct_update split: option.splits)

lemma dispatch_bounded: "attempts_bounded st \<Longrightarrow> attempts_bounded (dispatch key now msg st)"
  by (cases msg)
     (auto simp: attempts_bounded_def inbox_push_def update_conv' attempts_def split: option.splits if_splits)

lemma on_data_keys: "keys_once st \<Longrightarrow> keys_once (on_data api key now d st)"
  by (auto simp: on_data_def dispatch_keys split: option.splits) (simp_all add: keys_once_def)

lemma on_data_bounded: "attempts_bounded st \<Longrightarrow> attempts_bounded (on_data api key now d st)"
  by (auto simp: on_data_def dispatch_bounded split: option.splits) (simp_all add: attempts_bounded_def)

text \<open>A request handler either leaves the sent-task table or stores one entry in it.\<close>

lemma post_task_request_sent:
  "sentTasks (after_request st (post_task_request api tid now body st)) = sentTasks st
   \<or> (\<exists>e. sentTasks (after_request st (post_task_request api tid now body st))
            = AList.update tid e (sentTasks st)
          \<and> attempts e \<le> 1)"
proof (cases "validate_task_request api body")
  case (Some r)
  then show ?thesis by (simp add: post_task_request_def after_request_def)
next
  case None
  show ?thesis
  proof (cases "truthy (b_target body) \<and> b_target body \<noteq> JStr ''*''")
    case False
    with None show ?thesis
      by (auto simp: post_task_request_def after_request_def Let_def new_sent_task_def attempts_def)
  next
    case True
    let ?tgt = "case b_target body of JStr t \<Rightarrow> t | _ \<Rightarrow> []"
    show ?thesis
    proof (cases "find_match (request_match ?tgt) (peers st)")
      case (Inl e)
      with None True show ?thesis
        by (simp add: post_task_request_def after_request_def Let_def)
    next
      case (Inr r)
      with None True show ?thesis
        by (cases r)
           (auto simp: post_task_request_def after_request_def Let_def new_sent_task_def attempts_def)
    qed
  qed
qed

lemma update_keys: "keys_once st \<Longrightarrow> sentTasks st' = AList.update k e (sentTasks st) \<Longrightarrow> keys_once st'"
  by (simp add: keys_once_def distinct_update)

lemma update_bounded:
  "attempts_bounded st \<Longrightarrow> sentTasks st' = AList.update k e (sentTasks st) \<Longrightarrow>
   attempts e \<le> maxAttempts \<Longrightarrow> attempts_bounded st'"
  by (simp add: attempts_bounded_def update_conv')

lemma same_keys: "keys_once st \<Longrightarrow> sentTasks st' = sentTasks st \<Longrightarrow> keys_once st'"
  by (simp add: keys_once_def)

lemma same_bounded: "attempts_bounded st \<Longrightarrow> sentTasks st' = sentTasks st \<Longrightarrow> attempts_bounded st'"
  by (simp add: attempts_bounded_def)

lemma post_task_request_keys:
  "keys_once st \<Longrightarrow> keys_once (after_request st (post_task_request api tid now body st))"
  using post_task_request_sent [of st api tid now body]
  by (auto intro: update_keys same_keys)

lemma post_task_request_bounded:
  "attempts_bounded st \<Longrightarrow> attempts_bounded (after_request st (post_task_request api tid now body st))"
  using post_task_request_sent [of st api tid now body]
  by (auto intro: update_bounded same_bounded simp: maxAttempts_def)

lemma post_tasks_retry_keys:
  "keys_once st \<Longrightarrow> keys_once (snd (post_tasks_retry tid now st))"
  by (auto simp: post_tasks_retry_def keys_once_def distinct_update split: option.splits)

lemma post_tasks_retry_bounded:
  "attempts_bounded st \<Longrightarrow> attempts_bounded (snd (post_tasks_retry tid now st))"
  by (auto simp: post_tasks_retry_def attempts_bounded_def update_conv' attempts_def
           split: option.splits if_splits)

lemma post_task_respond_sent: "sentTasks (snd (post_task_respond body st)) = sentTasks st"
  by (auto simp: post_task_respond_def Let_def split: option.splits jsval.splits)

lemma post_leave_sent: "sentTasks (snd (post_leave topic st)) = sentTasks st"
  by (auto simp: post_leave_def leaveTopic_def split: option.splits jsval.splits)

lemma post_broadcast_sent: "sentTasks (after_request st (post_broadcast now c st)) = sentTasks st"
  by (simp add: post_broadcast_def after_request_def)

lemma handleMessageSend_sent:
  "sentTasks (after_request st (handleMessageSend tid now rid params st)) = sentTasks st
   \<or> (\<exists>e. sentTasks (after_request st (handleMessageSend tid now rid params st))
            = AList.update tid e (sentTasks st)
          \<and> attempts e = 0)"
proof (cases "handleMessageSend tid now rid params st")
  case (Inl e)
  then show ?thesis by (simp add: after_request_def)
next
  case (Inr r)
  then show ?thesis
    by (auto simp: handleMessageSend_def after_request_def Let_def a2a_entry_def new_sent_task_def
                   attempts_def
             split: option.splits jsval.splits if_splits sum.splits)
qed

lemma handleMessageSend_keys:
  "keys_once st \<Longrightarrow> keys_once (after_request st (handleMessageSend tid now rid params st))"
  using handleMessageSend_sent [of st tid now rid params]
  by (auto intro: update_keys same_keys)

lemma handleMessageSend_bounded:
  "attempts_bounded st \<Longrightarrow>
   attempts_bounded (after_request st (handleMessageSend tid now rid params st))"
  using handleMessageSend_sent [of st tid now rid params]
  by (auto intro: update_bounded same_bounded)

lemma step_keys: "keys_once st \<Longrightarrow> keys_once (fst (step api ev st))"
  by (cases ev)
     (auto simp: on_data_keys post_task_request_keys post_tasks_retry_keys handleMessageSend_keys
                 retry_reaper_def reaper_loop_keys
           intro: same_keys [of st]
           simp: on_connection_def cleanupPeer_def timeout_reaper_def get_inbox_def
                 post_broadcast_sent post_task_respond_sent post_leave_sent Let_def)

lemma step_bounded: "attempts_bounded st \<Longrightarrow> attempts_bounded (fst (step api ev st))"
  by (cases ev)
     (auto simp: on_data_bounded post_task_request_bounded post_tasks_retry_bounded
                 handleMessageSend_bounded retry_reaper_def reaper_loop_bounded
           intro: same_bounded [of st]
           simp: on_connection_def cleanupPeer_def timeout_reaper_def get_inbox_def
                 post_broadcast_sent post_task_respond_sent post_leave_sent Let_def)

lemma run_keys: "keys_once st \<Longrightarrow> keys_once (run api evs st)"
proof (induction evs arbitrary: st)
  case Nil
  then show ?case by simp
next
  case (Cons ev evs)
  from Cons.prems have k: "keys_once (fst (step api ev st))" by (rule step_keys)
  obtain st' x where s: "step api ev st = (st', x)" by (cases "step api ev st")
  with k have k': "keys_once st'" by simp
  show ?case
  proof (cases x)
    case None
    with s Cons.IH [OF k'] show ?thesis by simp
  next
    case (Some e)
    with s k' show ?thesis by simp
  qed
qed

lemma run_bounded: "attempts_bounded st \<Longrightarrow> attempts_bounded (run api evs st)"
proof (induction evs arbitrary: st)
  case Nil
  then show ?case by simp
next
  case (Cons ev evs)
  from Cons.prems have k: "attempts_bounded (fst (step api ev st))" by (rule step_bounded)
  obtain st' x where s: "step api ev st = (st', x)" by (cases "step api ev st")
  with k have k': "attempts_bounded st'" by simp
  show ?case
  proof (cases x)
    case None
    with s Cons.IH [OF k'] show ?thesis by simp
  next
    case (Some e)
    with s k' show ?thesis by simp
  qed
qed

lemma startup_sent: "sentTasks (startup api selfId t0) = []"
  by (simp add: startup_def joinTopic_def Let_def)

lemma startup_keys: "keys_once (startup api selfId t0)"
  by (simp add: keys_once_def startup_sent)

lemma startup_bounded: "attempts_bounded (startup api selfId t0)"
  by (simp add: attempts_bounded_def startup_sent)

text \<open>
  Claim C4 (attemptCount never exceeds maxAttempts). In every state the node reaches
  from startup by any sequence of events (task submissions over HTTP and A2A, received
  frames, connections and disconnections, reaper ticks, manual requeues and the other
  handlers), every task in the sent-task table has attemptCount at most maxAttempts = 3;
  a task without the field counts as 0, as in \<^verbatim>\<open>task.attemptCount || 0\<close>.
\<close>

theorem attempt_count_bounded:
  assumes "map_of (sentTasks (run api evs (startup api selfId t0))) tid = Some task"
  shows "attempts task \<le> maxAttempts \<and> (\<forall>n. attemptCount task = Some n \<longrightarrow> n \<le> 3)"
proof -
  have "attempts_bounded (run api evs (startup api selfId t0))"
    by (rule run_bounded [OF startup_bounded])
  with assms have b: "attempts task \<le> maxAttempts"
    unfolding attempts_bounded_def by blast
  then show ?thesis by (auto simp: attempts_def maxAttempts_def)
qed

theorem attempt_count_bounded_witness:
  "map_of (sentTasks (run demo_api nobody_events fresh_node)) ''t1'' =
     Some ((new_sent_task ''nobody'' ''queued_for_retry'' demo_payload ''general'' 0 None)
             \<lparr> attemptCount := Some 3, lastAttemptAt := Some 30000,
               nextRetryTime := Some 70000, peerWasOffline := True \<rparr>)
   \<and> attempts ((new_sent_task ''nobody'' ''queued_for_retry'' demo_payload ''general'' 0 None)
             \<lparr> attemptCount := Some 3, lastAttemptAt := Some 30000,
               nextRetryTime := Some 70000, peerWasOffline := True \<rparr>) \<le> maxAttempts"
proof -
  let ?t = "(new_sent_task ''nobody'' ''queued_for_retry'' demo_payload ''general'' 0 None)
             \<lparr> attemptCount := Some 3, lastAttemptAt := Some 30000,
               nextRetryTime := Some 70000, peerWasOffline := True \<rparr>"
  have m: "map_of (sentTasks (run demo_api nobody_events fresh_node)) ''t1'' = Some ?t"
    by (simp add: nobody_run)
  from attempt_count_bounded [OF m [unfolded fresh_node_def]] m show ?thesis by simp
qed

text \<open>
  Claim C6 (retry exhaustion). Let the node be in a state reached from startup, and let a
  reaper tick come to a task with status \<^verbatim>\<open>queued_for_retry\<close> that it does not dead-letter
  for its deadline, whose nextRetryTime is not in the future, for whose target the test
  of every peer comes out false, and whose attemptCount is at least 3. Then the tick
  runs to its end, and after it the task is no longer in the sent-task table and is in
  the dead-letter table with status \<^verbatim>\<open>failed\<close>, failedAt the time of the tick and
  failureReason \<^verbatim>\<open>Peer offline after 3 attempts\<close>.
\<close>

theorem exhausted_task_is_dead_lettered:
  assumes st: "st = run api evs (startup api selfId t0)"
      and m: "map_of (sentTasks st) tid = Some task"
      and q: "status task = ''queued_for_retry''"
      and d: "\<not> deadline_passed now task"
      and r: "\<not> retry_not_due now task"
      and p: "\<forall>kp \<in> set (peers st). reaper_match (target task) kp = Inr False"
      and x: "attempts_exhausted task"
  shows "snd (retry_reaper now st) = None
       \<and> map_of (sentTasks (fst (retry_reaper now st))) tid = None
       \<and> map_of (deadLetterTasks (fst (retry_reaper now st))) tid =
           Some (task\<lparr> status := ''failed'',
                       failureReason := Some ''Peer offline after 3 attempts'',
                       failedAt := Some now \<rparr>)"
proof -
  have k: "keys_once st" unfolding st by (rule run_keys [OF startup_keys])
  have "attempts_bounded st" unfolding st by (rule run_bounded [OF startup_bounded])
  with m have "attempts task \<le> maxAttempts" unfolding attempts_bounded_def by blast
  with x have a: "attempts task = 3"
    by (auto simp: attempts_exhausted_def attempts_def maxAttempts_def split: option.splits)
  from p have "agents_readable (peers st)"
    and f: "find_match (reaper_match (target task)) (peers st) = Inr None"
    using no_match_readable by blast+
  then have c: "snd (retry_reaper now st) = None"
    unfolding retry_reaper_def by (simp add: reaper_loop_readable)
  note s = show_nat_3
  from m q d r f x a s c show ?thesis
    by (simp add: retry_reaper_sent [OF k c] retry_reaper_dead [OF k c] visit_sent_def visit_dead_def
                  dead_entry_def)
qed

theorem exhausted_task_is_dead_lettered_witness:
  "map_of (sentTasks (run demo_api nobody_events fresh_node)) ''t1'' =
     Some ((new_sent_task ''nobody'' ''queued_for_retry'' demo_payload ''general'' 0 None)
             \<lparr> attemptCount := Some 3, lastAttemptAt := Some 30000,
               nextRetryTime := Some 70000, peerWasOffline := True \<rparr>)
   \<and> peers (run demo_api nobody_events fresh_node) = []
   \<and> snd (retry_reaper 70000 (run demo_api nobody_events fresh_node)) = None
   \<and> map_of (sentTasks (fst (retry_reaper 70000 (run demo_api nobody_events fresh_node)))) ''t1'' = None
   \<and> map_of (deadLetterTasks (fst (retry_reaper 70000 (run demo_api nobody_events fresh_node)))) ''t1'' =
       Some ((new_sent_task ''nobody'' ''queued_for_retry'' demo_payload ''general'' 0 None)
               \<lparr> attemptCount := Some 3, lastAttemptAt := Some 30000,
                 nextRetryTime := Some 70000, peerWasOffline := True,
                 status := ''failed'', failureReason := Some ''Peer offline after 3 attempts'',
                 failedAt := Some 70000 \<rparr>)"
proof -
  let ?st = "run demo_api nobody_events fresh_node"
  let ?t = "(new_sent_task ''nobody'' ''queued_for_retry'' demo_payload ''general'' 0 None)
             \<lparr> attemptCount := Some 3, lastAttemptAt := Some 30000,
               nextRetryTime := Some 70000, peerWasOffline := True \<rparr>"
  have e: "?st = run demo_api nobody_events (startup demo_api ''self'' 0)"
    by (simp add: fresh_node_def)
  have m: "map_of (sentTasks ?st) ''t1'' = Some ?t" by (simp add: nobody_run)
  have q: "status ?t = ''queued_for_retry''" by (simp add: new_sent_task_def)
  have d: "\<not> deadline_passed 70000 ?t" by (simp add: deadline_passed_def new_sent_task_def)
  have r: "\<not> retry_not_due 70000 ?t" by (simp add: retry_not_due_def new_sent_task_def)
  have ps: "peers ?st = []" by (simp add: nobody_run fresh_node_tables)
  then have p: "\<forall>kp \<in> set (peers ?st). reaper_match (target ?t) kp = Inr False" by simp
  have x: "attempts_exhausted ?t" by (simp add: attempts_exhausted_def maxAttempts_def new_sent_task_def)
  from exhausted_task_is_dead_lettered [OF e m q d r p x] m ps
  show ?thesis by simp
qed

section \<open>The A2A gateway\<close>

text \<open>
  Claim C5 (a task queued for retry has its nextRetryTime set) against the code. On a
  node without peers, \<^verbatim>\<open>message/send\<close> stores the new task with status
  \<^verbatim>\<open>queued_for_retry\<close> and neither nextRetryTime nor attemptCount, unlike the
  \<^verbatim>\<open>/task/request\<close> handler, which sets both when it queues a task.
\<close>

theorem message_send_queues_without_retry_time:
  "handleMessageSend ''t1'' 1000 (JNum 1) send_params fresh_node =
     Inr (RpcTask (JNum 1) ''t1''
            (a2a_entry [] 0 (a2aMessageToKtpPayload (field send_params ''message'') JUndefined)
               1000 JUndefined ''t1''),
          fresh_node\<lparr> sentTasks :=
            [(''t1'', a2a_entry [] 0 (a2aMessageToKtpPayload (field send_params ''message'') JUndefined)
               1000 JUndefined ''t1'')] \<rparr>)
   \<and> status (a2a_entry [] 0 (a2aMessageToKtpPayload (field send_params ''message'') JUndefined)
               1000 JUndefined ''t1'') = ''queued_for_retry''
   \<and> nextRetryTime (a2a_entry [] 0 (a2aMessageToKtpPayload (field send_params ''message'') JUndefined)
               1000 JUndefined ''t1'') = None
   \<and> attemptCount (a2a_entry [] 0 (a2aMessageToKtpPayload (field send_params ''message'') JUndefined)
               1000 JUndefined ''t1'') = None"
proof -
  have c: "field send_params ''contextId'' = JUndefined" "field send_params ''target'' = JUndefined"
    by (simp_all add: field_def send_params_def)
  show ?thesis
    by (simp add: handleMessageSend_def send_params_valid c Let_def fresh_node_tables a2a_entry_def
          new_sent_task_def)
qed

end
